theory Spec2Isabelle
  imports Main "HOL-Library.AList"
begin

section \<open>Values exchanged with the outside\<close>

text \<open>
  Identities are the socket ids handed out by the relay: JavaScript strings. Media
  streams and handshake payloads are opaque to the mesh; they are carried as strings.
  A message is either a JavaScript string or some other value, which the mesh turns
  into text with \<open>JSON.stringify\<close>. That builtin is a parameter \<open>stringify\<close> of
  the operations that use it.
\<close>

type_synonym identity = string
type_synonym stream = string
type_synonym payload = string

datatype 'v message = Text string | Structured 'v

text \<open>
  The connection capability (a simple-peer object) is outside the repository. Of it the
  mesh stores the options it was created with and reads the flag \<open>connected\<close>. The
  flag \<open>destroyed\<close> records that the capability has already been torn down, the case
  the source's \<open>try\<close>/\<open>catch\<close> around \<open>destroy()\<close> is written for.
\<close>

record peer =
  initiator :: bool
  trickle :: bool
  stream :: "stream option"
  connected :: bool
  destroyed :: bool

datatype js_error = AlreadyDestroyed | TypeError

definition peer_destroy :: "peer \<Rightarrow> js_error + peer" where
  "peer_destroy p =
     (if destroyed p then Inl AlreadyDestroyed
      else Inr (p\<lparr>connected := False, destroyed := True\<rparr>))"

text \<open>
  Everything the mesh does to the outside is appended to a log: the notifications it
  emits to the application, the requests it makes of the signalling module, and the
  calls it makes on a peer's capability.
\<close>

datatype action =
    Emit_room_count int
  | Emit_socket_id identity
  | Emit_connect identity
  | Emit_disconnect identity
  | Emit_data identity string
  | Emit_stream identity stream
  | Emit_track string identity stream
  | Emit_error identity string
  | Emit_full_connect
  | Signal_create string string string bool
  | Signal_join string string string
  | Signal_message identity payload
  | Signal_destroy
  | Peer_signal identity payload
  | Peer_send identity string
  | Peer_addStream identity stream
  | Peer_removeStream identity stream
  | Peer_destroy identity

section \<open>Promises and \<open>waitFor\<close>\<close>

text \<open>
  A promise settles once: \<open>resolve\<close> and \<open>reject\<close> on a settled promise do
  nothing. \<open>waitFor(event, timeout)\<close> makes a promise, arms a timer when
  \<open>timeout !== false\<close> and registers a \<open>once\<close> listener. The listener clears the
  timer and resolves; \<open>once\<close> removes it as it runs. The timer's callback rejects and
  does nothing else.
\<close>

datatype reason = Timeout string nat

datatype promise = Pending | Resolved | Rejected reason

record waiter =
  w_event :: string
  w_timeout :: "nat option"
  settled :: promise
  listening :: bool
  timer :: bool

definition resolve :: "promise \<Rightarrow> promise" where
  "resolve p = (if p = Pending then Resolved else p)"

definition reject :: "reason \<Rightarrow> promise \<Rightarrow> promise" where
  "reject r p = (if p = Pending then Rejected r else p)"

definition waitFor :: "string \<Rightarrow> nat option \<Rightarrow> waiter" where
  "waitFor event timeout =
     \<lparr>w_event = event, w_timeout = timeout, settled = Pending,
      listening = True, timer = (timeout \<noteq> None)\<rparr>"

definition waitFor_listener :: "waiter \<Rightarrow> waiter" where
  "waitFor_listener w =
     w\<lparr>listening := False,
       timer := (if w_timeout w \<noteq> None then False else timer w),
       settled := resolve (settled w)\<rparr>"

definition waitFor_timer :: "waiter \<Rightarrow> waiter" where
  "waitFor_timer w =
     (case w_timeout w of
        None \<Rightarrow> w
      | Some ms \<Rightarrow> w\<lparr>timer := False, settled := reject (Timeout (w_event w) ms) (settled w)\<rparr>)"

section \<open>The state of a \<open>MultiPeerMesh\<close>\<close>

text \<open>
  \<open>peers\<close> is a JavaScript object keyed by socket id: an association list in insertion
  order, where assigning to a present key replaces its value in place
  (\<open>AList.update\<close>) and \<open>delete\<close> drops the key (\<open>AList.delete\<close>).
  Socket ids are taken to be ordinary property names: not the text of an array index,
  which \<open>for ... in\<close> would visit first, and not \<open>__proto__\<close>.
  \<open>roomCount\<close> is the property \<open>signal.roomCount\<close> of the signalling module, which
  is not part of the repository: \<open>None\<close> is JavaScript's \<open>undefined\<close>.
  The model follows one call of \<open>join\<close>: \<open>join_state\<close> is where that call stands,
  \<open>rc_wait\<close> and \<open>fc_wait\<close> are the two waits it makes.
\<close>

datatype join_state =
  NotJoined | AwaitRoomCount | AwaitFullConnect | JoinResolved | JoinRejected reason

record mesh =
  appName :: string
  mesh_trickle :: bool
  peers :: "(identity \<times> peer) list"
  room :: string
  broadcastedStream :: "stream option"
  roomCount :: "int option"
  join_state :: join_state
  rc_wait :: "waiter option"
  fc_wait :: "waiter option"
  out :: "action list"

definition constructor :: "string \<Rightarrow> bool \<Rightarrow> mesh" where
  "constructor name trickle_opt =
     \<lparr>appName = name, mesh_trickle = trickle_opt, peers = [], room = [],
      broadcastedStream = None, roomCount = None, join_state = NotJoined,
      rc_wait = None, fc_wait = None, out = []\<rparr>"

definition do_action :: "action \<Rightarrow> mesh \<Rightarrow> mesh" where
  "do_action a s = s\<lparr>out := out s @ [a]\<rparr>"

definition hasOwnProperty :: "(identity \<times> peer) list \<Rightarrow> identity \<Rightarrow> bool" where
  "hasOwnProperty ps k = (map_of ps k \<noteq> None)"

section \<open>Full-mesh detection\<close>

definition getConnectedPeerCount :: "mesh \<Rightarrow> nat" where
  "getConnectedPeerCount s = length (filter (\<lambda>kp. connected (snd kp)) (peers s))"

text \<open>\<open>peerCount + 1 >= undefined\<close> is \<open>false\<close> in JavaScript.\<close>

definition isFullyConnected :: "mesh \<Rightarrow> bool" where
  "isFullyConnected s =
     (case roomCount s of
        None \<Rightarrow> False
      | Some n \<Rightarrow> int (getConnectedPeerCount s) + 1 \<ge> n)"

text \<open>
  The end of \<open>join\<close>: its last statement awaits the promise of
  \<open>waitFor('full-connect', 10000)\<close>, so \<open>join\<close> settles as that promise does.
\<close>

definition join_finish :: "mesh \<Rightarrow> mesh" where
  "join_finish s =
     (if join_state s = AwaitFullConnect then
        (case fc_wait s of
           None \<Rightarrow> s
         | Some w \<Rightarrow>
             (case settled w of
                Pending \<Rightarrow> s
              | Resolved \<Rightarrow> s\<lparr>join_state := JoinResolved\<rparr>
              | Rejected r \<Rightarrow> s\<lparr>join_state := JoinRejected r\<rparr>))
      else s)"

text \<open>
  \<open>this.emit('full-connect')\<close>: the application is notified, and the \<open>once\<close>
  listener of a \<open>waitFor('full-connect', ...)\<close> runs if it is registered.
\<close>

definition emit_full_connect :: "mesh \<Rightarrow> mesh" where
  "emit_full_connect s =
     (let s1 = do_action Emit_full_connect s in
      case fc_wait s1 of
        None \<Rightarrow> s1
      | Some w \<Rightarrow>
          if listening w
          then join_finish (s1\<lparr>fc_wait := Some (waitFor_listener w)\<rparr>)
          else s1)"

definition checkFullConnect :: "mesh \<Rightarrow> mesh" where
  "checkFullConnect s = (if isFullyConnected s then emit_full_connect s else s)"

section \<open>Peers\<close>

text \<open>
  \<open>createPeer\<close> builds the options (the \<open>wrtc\<close> option, which only selects the
  WebRTC implementation, is left out), creates the capability and registers the
  listeners modelled further down.
\<close>

definition createPeer :: "identity \<Rightarrow> bool \<Rightarrow> mesh \<Rightarrow> peer" where
  "createPeer socketId is_initiator s =
     \<lparr>initiator = is_initiator, trickle = mesh_trickle s,
      stream = broadcastedStream s, connected = False, destroyed = False\<rparr>"

section \<open>The listeners registered by \<open>connect\<close>\<close>

text \<open>
  The signalling module stores the count in \<open>signal.roomCount\<close> and emits
  \<open>room-count\<close>. The listener of \<open>connect\<close> runs; then, if \<open>join\<close> is waiting in
  \<open>signal.waitFor('room-count', 5000)\<close>, that wait resolves with the count and
  \<open>join\<close> continues, before any other event is handled: it checks for full
  connection and, unless the count is 1, starts waiting for \<open>full-connect\<close>.
  The module's \<open>waitFor\<close> is outside the repository and taken to work as the mesh's
  own \<open>waitFor\<close> does.
\<close>

definition join_continue :: "int \<Rightarrow> mesh \<Rightarrow> mesh" where
  "join_continue n s =
     (let s1 = checkFullConnect s in
      if n \<noteq> 1
      then s1\<lparr>fc_wait := Some (waitFor ''full-connect'' (Some 10000)),
              join_state := AwaitFullConnect\<rparr>
      else s1\<lparr>join_state := JoinResolved\<rparr>)"

definition signal_waitFor_fires :: "int \<Rightarrow> mesh \<Rightarrow> mesh" where
  "signal_waitFor_fires n s =
     (case rc_wait s of
        None \<Rightarrow> s
      | Some w \<Rightarrow>
          if listening w then
            (let w' = waitFor_listener w; s1 = s\<lparr>rc_wait := Some w'\<rparr> in
             if join_state s1 = AwaitRoomCount \<and> settled w' = Resolved
             then join_continue n s1 else s1)
          else s)"

definition on_room_count :: "int \<Rightarrow> mesh \<Rightarrow> mesh" where
  "on_room_count n s =
     signal_waitFor_fires n
       (checkFullConnect (do_action (Emit_room_count n) (s\<lparr>roomCount := Some n\<rparr>)))"

definition on_socket_id :: "identity \<Rightarrow> mesh \<Rightarrow> mesh" where
  "on_socket_id mySocketId s = do_action (Emit_socket_id mySocketId) s"

definition on_initialize :: "identity \<Rightarrow> mesh \<Rightarrow> mesh" where
  "on_initialize socketId s =
     s\<lparr>peers := AList.update socketId (createPeer socketId True s) (peers s)\<rparr>"

text \<open>
  The relay's \<open>destroy\<close>. An exception of the capability's \<open>destroy()\<close> is caught
  and ignored; the entry is deleted and \<open>disconnect\<close> emitted either way.
\<close>

definition on_destroy :: "identity \<Rightarrow> mesh \<Rightarrow> mesh" where
  "on_destroy socketId s =
     (case map_of (peers s) socketId of
        Some p \<Rightarrow>
          (let s1 = do_action (Peer_destroy socketId) s;
               s2 = (case peer_destroy p of
                       Inl e \<Rightarrow> s1
                     | Inr p' \<Rightarrow> s1\<lparr>peers := AList.update socketId p' (peers s1)\<rparr>);
               s3 = s2\<lparr>peers := AList.delete socketId (peers s2)\<rparr>
           in do_action (Emit_disconnect socketId) s3)
      | None \<Rightarrow> s)"

definition on_signal :: "identity \<Rightarrow> payload \<Rightarrow> mesh \<Rightarrow> mesh" where
  "on_signal socketId sig s =
     (let s1 = (if \<not> hasOwnProperty (peers s) socketId
                then s\<lparr>peers := AList.update socketId (createPeer socketId False s) (peers s)\<rparr>
                else s)
      in do_action (Peer_signal socketId sig) s1)"

section \<open>The listeners registered by \<open>createPeer\<close>\<close>

text \<open>
  A capability's notification is attributed to the entry stored under its socket id.
  On \<open>connect\<close> the capability has set its own flag \<open>connected\<close>; on \<open>close\<close> it
  is torn down by itself.
\<close>

definition on_peer_error :: "identity \<Rightarrow> string \<Rightarrow> mesh \<Rightarrow> mesh" where
  "on_peer_error socketId err s = do_action (Emit_error socketId err) s"

definition on_peer_signal :: "identity \<Rightarrow> payload \<Rightarrow> mesh \<Rightarrow> mesh" where
  "on_peer_signal socketId data s = do_action (Signal_message socketId data) s"

definition on_peer_connect :: "identity \<Rightarrow> mesh \<Rightarrow> mesh" where
  "on_peer_connect socketId s =
     checkFullConnect
       (do_action (Emit_connect socketId)
          (s\<lparr>peers := AList.map_entry socketId (\<lambda>p. p\<lparr>connected := True\<rparr>) (peers s)\<rparr>))"

definition on_peer_data :: "identity \<Rightarrow> string \<Rightarrow> mesh \<Rightarrow> mesh" where
  "on_peer_data socketId data s = do_action (Emit_data socketId data) s"

definition on_peer_stream :: "identity \<Rightarrow> stream \<Rightarrow> mesh \<Rightarrow> mesh" where
  "on_peer_stream socketId st s = do_action (Emit_stream socketId st) s"

definition on_peer_track :: "identity \<Rightarrow> string \<Rightarrow> stream \<Rightarrow> mesh \<Rightarrow> mesh" where
  "on_peer_track socketId track st s = do_action (Emit_track track socketId st) s"

definition on_peer_close :: "identity \<Rightarrow> mesh \<Rightarrow> mesh" where
  "on_peer_close socketId s =
     s\<lparr>peers := AList.map_entry socketId
                  (\<lambda>p. p\<lparr>connected := False, destroyed := True\<rparr>) (peers s)\<rparr>"

section \<open>Timers\<close>

text \<open>A timer's callback runs only while the timer is armed.\<close>

definition on_timer_room_count :: "mesh \<Rightarrow> mesh" where
  "on_timer_room_count s =
     (case rc_wait s of
        None \<Rightarrow> s
      | Some w \<Rightarrow>
          if timer w then
            (let w' = waitFor_timer w; s1 = s\<lparr>rc_wait := Some w'\<rparr> in
             if join_state s1 = AwaitRoomCount
             then (case settled w' of
                     Rejected r \<Rightarrow> s1\<lparr>join_state := JoinRejected r\<rparr>
                   | _ \<Rightarrow> s1)
             else s1)
          else s)"

definition on_timer_full_connect :: "mesh \<Rightarrow> mesh" where
  "on_timer_full_connect s =
     (case fc_wait s of
        None \<Rightarrow> s
      | Some w \<Rightarrow>
          if timer w
          then join_finish (s\<lparr>fc_wait := Some (waitFor_timer w)\<rparr>)
          else s)"

section \<open>The operations of the application\<close>

text \<open>
  \<open>getServerRooms\<close>, \<open>url\<close> and \<open>log\<close> touch neither the peer map nor the
  waits and are left out. A test \<open>this.peers[peer] !== null\<close> on an entry of the
  map is always true, since \<open>createPeer\<close> returns an object.
\<close>

definition create :: "string \<Rightarrow> string \<Rightarrow> bool \<Rightarrow> mesh \<Rightarrow> mesh" where
  "create r password hidden s = do_action (Signal_create (appName s) r password hidden) s"

text \<open>\<open>join\<close> up to its first \<open>await\<close>.\<close>

definition join :: "string \<Rightarrow> string \<Rightarrow> mesh \<Rightarrow> mesh" where
  "join r password s =
     (do_action (Signal_join (appName s) r password) s)
       \<lparr>room := r,
        rc_wait := Some (waitFor ''room-count'' (Some 5000)),
        join_state := AwaitRoomCount\<rparr>"

fun broadcast_loop ::
  "('v \<Rightarrow> string) \<Rightarrow> 'v message \<Rightarrow> (identity \<times> peer) list \<Rightarrow> mesh \<Rightarrow> mesh" where
  "broadcast_loop stringify message [] s = s"
| "broadcast_loop stringify message (kp # rest) s =
     broadcast_loop stringify message rest
       (case message of
          Text t \<Rightarrow> do_action (Peer_send (fst kp) t) s
        | Structured v \<Rightarrow> do_action (Peer_send (fst kp) (stringify v)) s)"

definition broadcast :: "('v \<Rightarrow> string) \<Rightarrow> 'v message \<Rightarrow> mesh \<Rightarrow> mesh" where
  "broadcast stringify message s = broadcast_loop stringify message (peers s) s"

definition send :: "('v \<Rightarrow> string) \<Rightarrow> identity \<Rightarrow> 'v message \<Rightarrow> mesh \<Rightarrow> mesh" where
  "send stringify id' message s =
     (if hasOwnProperty (peers s) id' then
        (case message of
           Text t \<Rightarrow> do_action (Peer_send id' t) s
         | Structured v \<Rightarrow> do_action (Peer_send id' (stringify v)) s)
      else s)"

definition broadcastStream :: "stream \<Rightarrow> mesh \<Rightarrow> mesh" where
  "broadcastStream st s =
     (let s1 = s\<lparr>broadcastedStream := Some st\<rparr> in
      s1\<lparr>out := out s1 @ map (\<lambda>kp. Peer_addStream (fst kp) st) (peers s1)\<rparr>)"

text \<open>
  \<open>sendStream\<close> and \<open>removeStream\<close> test
  \<open>this.peers.hasOwnProperty(id && this.peers[id] !== null)\<close>. For a falsy id (the
  empty string) the argument is the id itself. For any other id it is the boolean
  \<open>this.peers[id] !== null\<close>, which is \<open>true\<close> for a stored capability and for
  \<open>undefined\<close> alike, and \<open>hasOwnProperty\<close> looks up its text \<open>"true"\<close>. When the
  test passes, \<open>this.peers[id]\<close> is read; on \<open>undefined\<close> the method call raises.
\<close>

definition stream_guard_key :: "(identity \<times> peer) list \<Rightarrow> identity \<Rightarrow> identity" where
  "stream_guard_key ps id' =
     (if id' = [] then id'
      else (case map_of ps id' of None \<Rightarrow> ''true'' | Some p \<Rightarrow> ''true''))"

definition sendStream :: "identity \<Rightarrow> stream \<Rightarrow> mesh \<Rightarrow> js_error + mesh" where
  "sendStream id' st s =
     (if hasOwnProperty (peers s) (stream_guard_key (peers s) id') then
        (case map_of (peers s) id' of
           None \<Rightarrow> Inl TypeError
         | Some p \<Rightarrow> Inr (do_action (Peer_addStream id' st) s))
      else Inr s)"

definition removeStream :: "identity \<Rightarrow> stream \<Rightarrow> mesh \<Rightarrow> js_error + mesh" where
  "removeStream id' st s =
     (if hasOwnProperty (peers s) (stream_guard_key (peers s) id') then
        (case map_of (peers s) id' of
           None \<Rightarrow> Inl TypeError
         | Some p \<Rightarrow> Inr (do_action (Peer_removeStream id' st) s))
      else Inr s)"

definition broadcastRemoveStream :: "stream \<Rightarrow> mesh \<Rightarrow> mesh" where
  "broadcastRemoveStream st s =
     (let s1 = s\<lparr>broadcastedStream := None\<rparr> in
      s1\<lparr>out := out s1 @ map (\<lambda>kp. Peer_removeStream (fst kp) st) (peers s1)\<rparr>)"

text \<open>
  \<open>destroy\<close> tears the signalling module down, then destroys and deletes every entry;
  an exception of a capability's \<open>destroy()\<close> is caught and ignored.
\<close>

fun destroy_loop :: "(identity \<times> peer) list \<Rightarrow> mesh \<Rightarrow> mesh" where
  "destroy_loop [] s = s"
| "destroy_loop (kp # rest) s =
     (let s1 = do_action (Peer_destroy (fst kp)) s;
          s2 = (case peer_destroy (snd kp) of
                  Inl e \<Rightarrow> s1
                | Inr p' \<Rightarrow> s1\<lparr>peers := AList.update (fst kp) p' (peers s1)\<rparr>)
      in destroy_loop rest (s2\<lparr>peers := AList.delete (fst kp) (peers s2)\<rparr>))"

definition destroy :: "mesh \<Rightarrow> mesh" where
  "destroy s = (let s1 = do_action Signal_destroy s in destroy_loop (peers s1) s1)"

section \<open>Events\<close>

datatype event =
    RoomCount int
  | SocketId identity
  | Initialize identity
  | Destroy identity
  | Signal identity payload
  | PeerError identity string
  | PeerSignal identity payload
  | PeerConnect identity
  | PeerData identity string
  | PeerStream identity stream
  | PeerTrack identity string stream
  | PeerClose identity
  | TimerRoomCount
  | TimerFullConnect

fun handle :: "event \<Rightarrow> mesh \<Rightarrow> mesh" where
  "handle (RoomCount n) s = on_room_count n s"
| "handle (SocketId i) s = on_socket_id i s"
| "handle (Initialize i) s = on_initialize i s"
| "handle (Destroy i) s = on_destroy i s"
| "handle (Signal i sig) s = on_signal i sig s"
| "handle (PeerError i err) s = on_peer_error i err s"
| "handle (PeerSignal i d) s = on_peer_signal i d s"
| "handle (PeerConnect i) s = on_peer_connect i s"
| "handle (PeerData i d) s = on_peer_data i d s"
| "handle (PeerStream i st) s = on_peer_stream i st s"
| "handle (PeerTrack i t st) s = on_peer_track i t st s"
| "handle (PeerClose i) s = on_peer_close i s"
| "handle TimerRoomCount s = on_timer_room_count s"
| "handle TimerFullConnect s = on_timer_full_connect s"

text \<open>One event handled with an empty log: \<open>out\<close> then holds what this event did.\<close>

definition step :: "event \<Rightarrow> mesh \<Rightarrow> mesh" where
  "step e s = handle e (s\<lparr>out := []\<rparr>)"

fun run :: "event list \<Rightarrow> mesh \<Rightarrow> mesh" where
  "run [] s = s"
| "run (e # es) s = run es (handle e s)"

section \<open>The text a message is sent as\<close>

text \<open>
  The specification's canonical encoding: a text payload is sent as it is, any other
  payload as its \<open>JSON.stringify\<close> text. \<open>broadcast\<close> and \<open>send\<close> above
  branch on \<open>typeof message\<close> themselves; they are compared with this definition.
\<close>

definition canonical_text :: "('v \<Rightarrow> string) \<Rightarrow> 'v message \<Rightarrow> string" where
  "canonical_text stringify message =
     (case message of Text t \<Rightarrow> t | Structured v \<Rightarrow> stringify v)"

text \<open>\<open>JSON.stringify\<close> on the two booleans, for the examples.\<close>

definition stringify_bool :: "bool \<Rightarrow> string" where
  "stringify_bool b = (if b then ''true'' else ''false'')"

section \<open>\<open>broadcast\<close> with a message that changes as it is encoded\<close>

text \<open>
  \<open>JSON.stringify(message)\<close> runs code of the message itself (its \<open>toJSON\<close>, its
  getters), and \<open>broadcast\<close> calls it inside the loop, once for every entry. Above,
  \<open>stringify\<close> is a function of the message alone. Here it returns the text together
  with the message as the call leaves it, and the loop passes that message on to the next
  entry: this is the same loop, for every kind of message.
\<close>

fun broadcast_each_loop ::
  "('v \<Rightarrow> string \<times> 'v) \<Rightarrow> 'v message \<Rightarrow> (identity \<times> peer) list \<Rightarrow> mesh \<Rightarrow> mesh" where
  "broadcast_each_loop stringify message [] s = s"
| "broadcast_each_loop stringify (Text t) (kp # rest) s =
     broadcast_each_loop stringify (Text t) rest (do_action (Peer_send (fst kp) t) s)"
| "broadcast_each_loop stringify (Structured v) (kp # rest) s =
     broadcast_each_loop stringify (Structured (snd (stringify v))) rest
       (do_action (Peer_send (fst kp) (fst (stringify v))) s)"

definition broadcast_each :: "('v \<Rightarrow> string \<times> 'v) \<Rightarrow> 'v message \<Rightarrow> mesh \<Rightarrow> mesh" where
  "broadcast_each stringify message s = broadcast_each_loop stringify message (peers s) s"

text \<open>The texts of \<open>n\<close> successive calls of \<open>stringify\<close> on a message.\<close>

fun encodings :: "('v \<Rightarrow> string \<times> 'v) \<Rightarrow> 'v \<Rightarrow> nat \<Rightarrow> string list" where
  "encodings stringify v 0 = []"
| "encodings stringify v (Suc n) = fst (stringify v) # encodings stringify (snd (stringify v)) n"

text \<open>
  Two messages for the examples: a plain boolean, which encoding leaves as it is, and
  an object whose \<open>toJSON\<close> returns a flag and flips it.
\<close>

definition stringify_plain :: "bool \<Rightarrow> string \<times> bool" where
  "stringify_plain b = (stringify_bool b, b)"

definition stringify_toggle :: "bool \<Rightarrow> string \<times> bool" where
  "stringify_toggle b = (stringify_bool b, \<not> b)"

section \<open>\<open>SimplePeerMesh\<close>, the socket.io binding\<close>

text \<open>
  The second class of the repository keeps the room count itself, initialised to
  \<open>-1\<close> by its constructor and overwritten by every \<open>roomCount\<close> message. It
  has its own small event emitter: \<open>fire\<close> calls the listeners registered with
  \<open>on\<close>. The model logs what is fired and runs the two listeners \<open>join\<close>
  registers: the one for \<open>roomCount\<close> resolves when the count is 1 and otherwise
  registers the one for \<open>fullConnect\<close>, which resolves. There is no timer, and the
  promise of \<open>join\<close> has no way to be rejected.
\<close>

datatype sp_join_state = SpNotJoined | SpAwaitRoomCount | SpAwaitFullConnect | SpResolved

datatype sp_action =
    Socket_join string
  | Fire_roomCount int
  | Fire_connect identity
  | Fire_disconnect identity
  | Fire_fullConnect
  | Sp_peer_signal identity payload
  | Sp_peer_destroy identity

record simple_mesh =
  sp_peers :: "(identity \<times> peer) list"
  sp_roomCount :: int
  sp_joining :: sp_join_state
  sp_out :: "sp_action list"

definition sp_constructor :: simple_mesh where
  "sp_constructor =
     \<lparr>sp_peers = [], sp_roomCount = - 1, sp_joining = SpNotJoined, sp_out = []\<rparr>"

definition sp_log :: "sp_action \<Rightarrow> simple_mesh \<Rightarrow> simple_mesh" where
  "sp_log a s = s\<lparr>sp_out := sp_out s @ [a]\<rparr>"

fun sp_fire :: "sp_action \<Rightarrow> simple_mesh \<Rightarrow> simple_mesh" where
  "sp_fire (Fire_roomCount n) s =
     (let s1 = sp_log (Fire_roomCount n) s in
      if sp_joining s1 = SpAwaitRoomCount
      then s1\<lparr>sp_joining := (if sp_roomCount s1 = 1 then SpResolved else SpAwaitFullConnect)\<rparr>
      else s1)"
| "sp_fire Fire_fullConnect s =
     (let s1 = sp_log Fire_fullConnect s in
      if sp_joining s1 = SpAwaitFullConnect then s1\<lparr>sp_joining := SpResolved\<rparr> else s1)"
| "sp_fire a s = sp_log a s"

definition sp_join :: "string \<Rightarrow> simple_mesh \<Rightarrow> simple_mesh" where
  "sp_join r s = (sp_log (Socket_join r) s)\<lparr>sp_joining := SpAwaitRoomCount\<rparr>"

definition sp_createPeer :: "identity \<Rightarrow> bool \<Rightarrow> peer" where
  "sp_createPeer socketId is_initiator =
     \<lparr>initiator = is_initiator, trickle = True, stream = None,
      connected = False, destroyed = False\<rparr>"

definition sp_getConnectedPeerCount :: "simple_mesh \<Rightarrow> nat" where
  "sp_getConnectedPeerCount s = length (filter (\<lambda>kp. connected (snd kp)) (sp_peers s))"

definition sp_checkFullConnect :: "simple_mesh \<Rightarrow> simple_mesh" where
  "sp_checkFullConnect s =
     (let peerCount = sp_getConnectedPeerCount s in
      if int peerCount + 1 \<ge> sp_roomCount s then sp_fire Fire_fullConnect s else s)"

definition sp_on_roomCount :: "int \<Rightarrow> simple_mesh \<Rightarrow> simple_mesh" where
  "sp_on_roomCount n s =
     sp_checkFullConnect (sp_fire (Fire_roomCount n) (s\<lparr>sp_roomCount := n\<rparr>))"

definition sp_on_initialize :: "identity \<Rightarrow> simple_mesh \<Rightarrow> simple_mesh" where
  "sp_on_initialize socketId s =
     s\<lparr>sp_peers := AList.update socketId (sp_createPeer socketId True) (sp_peers s)\<rparr>"

text \<open>Here \<open>destroy()\<close> is called outside any \<open>try\<close>: its exception ends the listener.\<close>

definition sp_on_destroy :: "identity \<Rightarrow> simple_mesh \<Rightarrow> js_error + simple_mesh" where
  "sp_on_destroy socketId s =
     (case map_of (sp_peers s) socketId of
        Some p \<Rightarrow>
          (case peer_destroy p of
             Inl e \<Rightarrow> Inl e
           | Inr p' \<Rightarrow>
               (let s1 = sp_log (Sp_peer_destroy socketId) s;
                    s2 = s1\<lparr>sp_peers := AList.update socketId p' (sp_peers s1)\<rparr>;
                    s3 = s2\<lparr>sp_peers := AList.delete socketId (sp_peers s2)\<rparr>
                in Inr (sp_fire (Fire_disconnect socketId) s3)))
      | None \<Rightarrow> Inr s)"

definition sp_on_signal :: "identity \<Rightarrow> payload \<Rightarrow> simple_mesh \<Rightarrow> simple_mesh" where
  "sp_on_signal socketId sig s =
     (let s1 = (if \<not> hasOwnProperty (sp_peers s) socketId
                then s\<lparr>sp_peers := AList.update socketId (sp_createPeer socketId False) (sp_peers s)\<rparr>
                else s)
      in sp_log (Sp_peer_signal socketId sig) s1)"

definition sp_on_peer_connect :: "identity \<Rightarrow> simple_mesh \<Rightarrow> simple_mesh" where
  "sp_on_peer_connect socketId s =
     sp_checkFullConnect
       (sp_fire (Fire_connect socketId)
          (s\<lparr>sp_peers := AList.map_entry socketId (\<lambda>p. p\<lparr>connected := True\<rparr>) (sp_peers s)\<rparr>))"

text \<open>
  \<open>broadcast\<close> hands the message as it is to \<open>write\<close> of every entry; the result
  lists these calls.
\<close>

definition sp_broadcast :: "'v message \<Rightarrow> simple_mesh \<Rightarrow> (identity \<times> 'v message) list" where
  "sp_broadcast message s = map (\<lambda>kp. (fst kp, message)) (sp_peers s)"

datatype sp_event =
    SpRoomCount int
  | SpInitialize identity
  | SpDestroy identity
  | SpSignal identity payload
  | SpPeerConnect identity

fun sp_handle :: "sp_event \<Rightarrow> simple_mesh \<Rightarrow> js_error + simple_mesh" where
  "sp_handle (SpRoomCount n) s = Inr (sp_on_roomCount n s)"
| "sp_handle (SpInitialize i) s = Inr (sp_on_initialize i s)"
| "sp_handle (SpDestroy i) s = sp_on_destroy i s"
| "sp_handle (SpSignal i sig) s = Inr (sp_on_signal i sig s)"
| "sp_handle (SpPeerConnect i) s = Inr (sp_on_peer_connect i s)"

fun sp_run :: "sp_event list \<Rightarrow> simple_mesh \<Rightarrow> js_error + simple_mesh" where
  "sp_run [] s = Inr s"
| "sp_run (e # es) s = (case sp_handle e s of Inl err \<Rightarrow> Inl err | Inr s' \<Rightarrow> sp_run es s')"

section \<open>Auxiliary notions for the statements\<close>

text \<open>The events after which \<open>checkFullConnect\<close> is called.\<close>

fun checks :: "event \<Rightarrow> bool" where
  "checks (RoomCount n) = True"
| "checks (PeerConnect i) = True"
| "checks e = False"

fun is_RoomCount :: "event \<Rightarrow> bool" where
  "is_RoomCount (RoomCount n) = True"
| "is_RoomCount e = False"

text \<open>\<open>join\<close> is waiting in \<open>waitFor('full-connect', 10000)\<close>.\<close>

definition armed :: "mesh \<Rightarrow> bool" where
  "armed t \<longleftrightarrow> join_state t = AwaitFullConnect \<and>
               fc_wait t = Some (waitFor ''full-connect'' (Some 10000))"

text \<open>A freshly constructed mesh, and one with a connected peer A and a pending peer B.\<close>

definition mesh0 :: mesh where
  "mesh0 = constructor ''app'' True"

definition mesh_AB :: mesh where
  "mesh_AB = (run [Initialize ''A'', PeerConnect ''A'', Signal ''B'' ''offer''] mesh0)\<lparr>out := []\<rparr>"

text \<open>A mesh with two connected peers A and B.\<close>

definition mesh_two :: mesh where
  "mesh_two =
     (run [Initialize ''A'', PeerConnect ''A'', Initialize ''B'', PeerConnect ''B''] mesh0)\<lparr>out := []\<rparr>"

section \<open>Basic facts\<close>

lemma do_action_fields [simp]:
  "peers (do_action a s) = peers s"
  "roomCount (do_action a s) = roomCount s"
  "join_state (do_action a s) = join_state s"
  "fc_wait (do_action a s) = fc_wait s"
  "rc_wait (do_action a s) = rc_wait s"
  "out (do_action a s) = out s @ [a]"
  by (simp_all add: do_action_def)

lemma isFullyConnected_cong:
  "peers s = peers t \<Longrightarrow> roomCount s = roomCount t \<Longrightarrow> isFullyConnected s = isFullyConnected t"
  by (simp add: isFullyConnected_def getConnectedPeerCount_def split: option.splits)

lemma join_finish_fields [simp]:
  "peers (join_finish s) = peers s"
  "roomCount (join_finish s) = roomCount s"
  "out (join_finish s) = out s"
  "fc_wait (join_finish s) = fc_wait s"
  "rc_wait (join_finish s) = rc_wait s"
  by (simp_all add: join_finish_def split: option.splits promise.splits)

lemma emit_full_connect_fields [simp]:
  "peers (emit_full_connect s) = peers s"
  "roomCount (emit_full_connect s) = roomCount s"
  "rc_wait (emit_full_connect s) = rc_wait s"
  "out (emit_full_connect s) = out s @ [Emit_full_connect]"
  by (simp_all add: emit_full_connect_def Let_def split: option.splits)

lemma checkFullConnect_fields [simp]:
  "peers (checkFullConnect s) = peers s"
  "roomCount (checkFullConnect s) = roomCount s"
  "rc_wait (checkFullConnect s) = rc_wait s"
  "out (checkFullConnect s) = out s @ (if isFullyConnected s then [Emit_full_connect] else [])"
  by (simp_all add: checkFullConnect_def)

lemma isFullyConnected_checkFullConnect [simp]:
  "isFullyConnected (checkFullConnect s) = isFullyConnected s"
  by (rule isFullyConnected_cong) simp_all

lemma isFullyConnected_do_action [simp]:
  "isFullyConnected (do_action a s) = isFullyConnected s"
  by (rule isFullyConnected_cong) simp_all

lemma isFullyConnected_out_update [simp]:
  "isFullyConnected (s\<lparr>out := l\<rparr>) = isFullyConnected s"
  by (rule isFullyConnected_cong) simp_all

lemma isFullyConnected_rc_wait_update [simp]:
  "isFullyConnected (s\<lparr>rc_wait := w\<rparr>) = isFullyConnected s"
  by (rule isFullyConnected_cong) simp_all

lemma join_continue_fields [simp]:
  "peers (join_continue n s) = peers s"
  "roomCount (join_continue n s) = roomCount s"
  "out (join_continue n s) = out s @ (if isFullyConnected s then [Emit_full_connect] else [])"
  by (simp_all add: join_continue_def Let_def)

lemma signal_waitFor_fires_fields [simp]:
  "peers (signal_waitFor_fires n s) = peers s"
  "roomCount (signal_waitFor_fires n s) = roomCount s"
  by (simp_all add: signal_waitFor_fires_def Let_def split: option.splits)

lemma out_signal_waitFor_fires:
  "out (signal_waitFor_fires n s) = out s \<or>
   (isFullyConnected s \<and> out (signal_waitFor_fires n s) = out s @ [Emit_full_connect])"
  by (auto simp add: signal_waitFor_fires_def Let_def split: option.splits)

lemma isFullyConnected_signal_waitFor_fires [simp]:
  "isFullyConnected (signal_waitFor_fires n s) = isFullyConnected s"
  by (rule isFullyConnected_cong) simp_all

lemma on_timer_fields [simp]:
  "peers (on_timer_room_count s) = peers s"
  "roomCount (on_timer_room_count s) = roomCount s"
  "out (on_timer_room_count s) = out s"
  "peers (on_timer_full_connect s) = peers s"
  "roomCount (on_timer_full_connect s) = roomCount s"
  "out (on_timer_full_connect s) = out s"
  by (simp_all add: on_timer_room_count_def on_timer_full_connect_def Let_def
      split: option.splits promise.splits)

lemma out_on_destroy:
  "out (on_destroy i s) =
     out s @ (if hasOwnProperty (peers s) i then [Peer_destroy i, Emit_disconnect i] else [])"
  by (simp add: on_destroy_def hasOwnProperty_def Let_def split: option.splits sum.splits)

lemma peers_on_destroy: "peers (on_destroy i s) = AList.delete i (peers s)"
  by (auto simp add: on_destroy_def Let_def delete_update_same delete_notin_dom
      map_of_eq_None_iff delete_id split: option.splits sum.splits)

lemma roomCount_on_destroy [simp]: "roomCount (on_destroy i s) = roomCount s"
  by (simp add: on_destroy_def Let_def split: option.splits sum.splits)

lemma hasOwnProperty_iff: "hasOwnProperty ps k \<longleftrightarrow> k \<in> fst ` set ps"
  by (simp add: hasOwnProperty_def map_of_eq_None_iff)

lemma peers_mesh_AB:
  "peers mesh_AB =
     [(''A'', \<lparr>initiator = True, trickle = True, stream = None, connected = True, destroyed = False\<rparr>),
      (''B'', \<lparr>initiator = False, trickle = True, stream = None, connected = False, destroyed = False\<rparr>)]"
  by (simp add: mesh_AB_def mesh0_def constructor_def on_initialize_def on_peer_connect_def on_signal_def createPeer_def hasOwnProperty_def Let_def checkFullConnect_def isFullyConnected_def getConnectedPeerCount_def do_action_def)

lemma out_mesh_AB: "out mesh_AB = []"
  by (simp add: mesh_AB_def)

section \<open>The peer map\<close>

lemma distinct_peers_handle:
  "distinct (map fst (peers s)) \<Longrightarrow> distinct (map fst (peers (handle e s)))"
  by (cases e)
     (simp_all add: on_room_count_def on_socket_id_def on_initialize_def peers_on_destroy
        on_signal_def Let_def on_peer_error_def on_peer_signal_def on_peer_connect_def
        on_peer_data_def on_peer_stream_def on_peer_track_def on_peer_close_def
        distinct_update distinct_delete distinct_map_entry)

lemma distinct_peers_run:
  "distinct (map fst (peers s)) \<Longrightarrow> distinct (map fst (peers (run es s)))"
  by (induction es arbitrary: s) (simp_all add: distinct_peers_handle)

lemma distinct_count_le_1:
  "distinct (map fst ps) \<Longrightarrow> length (filter (\<lambda>kp. fst kp = i) ps) \<le> 1"
  by (induction ps) (auto simp add: filter_empty_conv image_iff)

text \<open>
  Claim C10. Whatever events arrive at a freshly constructed mesh, and in whatever
  order, the peer map holds at most one entry per identity afterwards. Every prefix of
  an event sequence is an event sequence, so this holds at every point.
\<close>

theorem peer_map_unique:
  "distinct (map fst (peers (run es (constructor name tr)))) \<and>
   length (filter (\<lambda>kp. fst kp = i) (peers (run es (constructor name tr)))) \<le> 1"
proof -
  have "distinct (map fst (peers (run es (constructor name tr))))"
    by (rule distinct_peers_run) (simp add: constructor_def)
  from this distinct_count_le_1 [OF this, of i] show ?thesis by simp
qed

section \<open>Teardown\<close>

lemma destroy_loop_out_peers:
  "peers (destroy_loop ps s) = filter (\<lambda>kp. fst kp \<notin> fst ` set ps) (peers s) \<and>
   out (destroy_loop ps s) = out s @ map (\<lambda>kp. Peer_destroy (fst kp)) ps"
proof (induction ps arbitrary: s)
  case Nil
  then show ?case by simp
next
  case (Cons kp ps)
  have d: "AList.delete k (AList.update k v al) = AList.delete k al" for k v and al :: "(identity \<times> peer) list"
    by (simp add: delete_update_same)
  have f: "filter (\<lambda>x. fst x \<notin> fst ` set ps) (AList.delete (fst kp) al) =
           filter (\<lambda>x. fst x \<notin> fst ` set (kp # ps)) al" for al :: "(identity \<times> peer) list"
    by (auto simp add: AList.delete_eq intro: filter_cong)
  show ?case
    by (cases "peer_destroy (snd kp)") (simp_all add: Cons.IH Let_def d f del: set_simps)
qed

lemma destroy_loop_rest:
  "roomCount (destroy_loop ps s) = roomCount s \<and> join_state (destroy_loop ps s) = join_state s \<and>
   rc_wait (destroy_loop ps s) = rc_wait s \<and> fc_wait (destroy_loop ps s) = fc_wait s \<and>
   room (destroy_loop ps s) = room s \<and> broadcastedStream (destroy_loop ps s) = broadcastedStream s \<and>
   appName (destroy_loop ps s) = appName s \<and> mesh_trickle (destroy_loop ps s) = mesh_trickle s"
  by (induction ps arbitrary: s) (simp_all add: Let_def do_action_def split: sum.splits)

lemma peers_destroy: "peers (destroy s) = []"
  by (simp add: destroy_def Let_def destroy_loop_out_peers filter_empty_conv)

lemma destroy_empty:
  "peers s = [] \<Longrightarrow> destroy s = s\<lparr>out := out s @ [Signal_destroy]\<rparr>"
  by (simp add: destroy_def Let_def do_action_def)

lemma out_destroy:
  "out (destroy s) = out s @ Signal_destroy # map (\<lambda>kp. Peer_destroy (fst kp)) (peers s)"
  by (simp add: destroy_def Let_def destroy_loop_out_peers)

lemma on_destroy_present:
  "map_of (peers s) i = Some p \<Longrightarrow>
   on_destroy i s =
     s\<lparr>peers := AList.delete i (peers s), out := out s @ [Peer_destroy i, Emit_disconnect i]\<rparr>"
  by (cases "peer_destroy p") (simp_all add: on_destroy_def Let_def do_action_def delete_update_same)

lemma peers_initialize_after_destroy:
  "peers (handle (Initialize j) (destroy s)) = [(j, createPeer j True (destroy s))]"
  by (simp add: on_initialize_def peers_destroy)

text \<open>
  Claim C7, as amended. The relay's \<open>destroy\<close> for an identity without an entry
  changes nothing. For an identity with an entry, the entry is deleted and
  \<open>disconnect\<close> emitted, also when the capability was destroyed before and its
  \<open>destroy()\<close> raises: the exception goes no further. \<open>destroy()\<close> empties the peer
  map, calling \<open>destroy()\<close> on every capability. A second \<open>destroy()\<close> finds the
  map empty and touches no capability, but it calls \<open>signal.destroy()\<close> once more.
  No state is terminal: an \<open>initialize\<close> handled after \<open>destroy()\<close> creates an
  entry as before.
\<close>

theorem teardown_empties_peer_map:
  "(\<not> hasOwnProperty (peers s) i \<longrightarrow> handle (Destroy i) s = s) \<and>
   (map_of (peers s) i = Some p \<longrightarrow>
      (destroyed p \<longrightarrow> peer_destroy p = Inl AlreadyDestroyed) \<and>
      handle (Destroy i) s =
        s\<lparr>peers := AList.delete i (peers s),
          out := out s @ [Peer_destroy i, Emit_disconnect i]\<rparr>) \<and>
   \<not> hasOwnProperty (peers (handle (Destroy i) s)) i \<and>
   peers (destroy s) = [] \<and>
   out (destroy s) = out s @ Signal_destroy # map (\<lambda>kp. Peer_destroy (fst kp)) (peers s) \<and>
   peers (destroy (destroy s)) = [] \<and>
   out (destroy (destroy s)) = out (destroy s) @ [Signal_destroy] \<and>
   destroy (destroy s) = (destroy s)\<lparr>out := out (destroy s) @ [Signal_destroy]\<rparr> \<and>
   peers (handle (Initialize j) (destroy s)) = [(j, createPeer j True (destroy s))]"
proof -
  have "\<not> hasOwnProperty (peers s) i \<longrightarrow> handle (Destroy i) s = s"
    by (simp add: hasOwnProperty_def on_destroy_def)
  moreover have "\<not> hasOwnProperty (peers (handle (Destroy i) s)) i"
    by (simp add: peers_on_destroy hasOwnProperty_def delete_conv')
  moreover have "map_of (peers s) i = Some p \<longrightarrow>
      (destroyed p \<longrightarrow> peer_destroy p = Inl AlreadyDestroyed) \<and>
      handle (Destroy i) s =
        s\<lparr>peers := AList.delete i (peers s),
          out := out s @ [Peer_destroy i, Emit_disconnect i]\<rparr>"
    by (simp add: on_destroy_present peer_destroy_def)
  moreover have twice:
    "destroy (destroy s) = (destroy s)\<lparr>out := out (destroy s) @ [Signal_destroy]\<rparr>"
    by (rule destroy_empty) (rule peers_destroy)
  moreover have "out (destroy (destroy s)) = out (destroy s) @ [Signal_destroy]"
    by (subst twice) simp
  moreover note peers_initialize_after_destroy [of j s]
  ultimately show ?thesis by (simp add: peers_destroy out_destroy)
qed

theorem teardown_empties_peer_map_witness:
  "\<not> hasOwnProperty (peers mesh0) ''Z'' \<and> handle (Destroy ''Z'') mesh0 = mesh0 \<and>
   map_of (peers (run [Initialize ''b'', PeerClose ''b''] mesh0)) ''b'' =
     Some \<lparr>initiator = True, trickle = True, stream = None, connected = False, destroyed = True\<rparr> \<and>
   peer_destroy \<lparr>initiator = True, trickle = True, stream = None, connected = False, destroyed = True\<rparr>
     = Inl AlreadyDestroyed \<and>
   handle (Destroy ''b'') (run [Initialize ''b'', PeerClose ''b''] mesh0) =
     mesh0\<lparr>out := [Peer_destroy ''b'', Emit_disconnect ''b'']\<rparr>"
proof -
  let ?p = "\<lparr>initiator = True, trickle = True, stream = None, connected = False, destroyed = True\<rparr>"
  let ?s = "run [Initialize ''b'', PeerClose ''b''] mesh0"
  have h1: "\<not> hasOwnProperty (peers mesh0) ''Z''"
    by (simp add: mesh0_def constructor_def hasOwnProperty_def)
  have h2: "map_of (peers ?s) ''b'' = Some ?p"
    by (simp add: mesh0_def constructor_def on_initialize_def on_peer_close_def createPeer_def)
  have h3: "destroyed ?p" by simp
  have e: "?s\<lparr>peers := AList.delete ''b'' (peers ?s),
               out := out ?s @ [Peer_destroy ''b'', Emit_disconnect ''b'']\<rparr>
           = mesh0\<lparr>out := [Peer_destroy ''b'', Emit_disconnect ''b'']\<rparr>"
    by (simp add: mesh0_def constructor_def on_initialize_def on_peer_close_def createPeer_def
        AList.delete_eq)
  from teardown_empties_peer_map [where s = mesh0 and i = "''Z''"] h1
  have z: "handle (Destroy ''Z'') mesh0 = mesh0" by blast
  from teardown_empties_peer_map [where s = ?s and i = "''b''" and p = ?p] h2 h3
  have b: "peer_destroy ?p = Inl AlreadyDestroyed"
    "handle (Destroy ''b'') ?s =
       ?s\<lparr>peers := AList.delete ''b'' (peers ?s),
           out := out ?s @ [Peer_destroy ''b'', Emit_disconnect ''b'']\<rparr>"
    by blast+
  from h1 h2 z b e show ?thesis by (simp only:) simp
qed

lemma mesh_AB_eq:
  "mesh_AB = mesh0\<lparr>peers :=
     [(''A'', \<lparr>initiator = True, trickle = True, stream = None, connected = True, destroyed = False\<rparr>),
      (''B'', \<lparr>initiator = False, trickle = True, stream = None, connected = False, destroyed = False\<rparr>)]\<rparr>"
  by (simp add: mesh_AB_def mesh0_def constructor_def on_initialize_def on_peer_connect_def
      on_signal_def createPeer_def hasOwnProperty_def Let_def checkFullConnect_def
      isFullyConnected_def do_action_def)

lemma destroy_mesh_AB:
  "destroy mesh_AB = mesh0\<lparr>out := [Signal_destroy, Peer_destroy ''A'', Peer_destroy ''B'']\<rparr>"
  by (simp add: mesh_AB_eq destroy_def Let_def do_action_def peer_destroy_def mesh0_def
      constructor_def AList.delete_eq)

text \<open>
  The claim as stated fails. The second \<open>destroy()\<close> is not a no-op: it calls
  \<open>signal.destroy()\<close> again. And the state after \<open>destroy()\<close> is not terminal: an
  \<open>initialize\<close> handled afterwards puts a peer into the map, and a \<open>room-count\<close>
  update emits \<open>full-connect\<close>.
\<close>

theorem destroy_twice_counterexample:
  "out (destroy mesh_AB) = [Signal_destroy, Peer_destroy ''A'', Peer_destroy ''B''] \<and>
   out (destroy (destroy mesh_AB)) =
     [Signal_destroy, Peer_destroy ''A'', Peer_destroy ''B'', Signal_destroy] \<and>
   peers (run [Initialize ''C''] (destroy mesh_AB)) =
     [(''C'', \<lparr>initiator = True, trickle = True, stream = None, connected = False, destroyed = False\<rparr>)] \<and>
   out (run [RoomCount 1] (destroy mesh_AB)) =
     [Signal_destroy, Peer_destroy ''A'', Peer_destroy ''B'', Emit_room_count 1, Emit_full_connect]"
  by (simp add: destroy_mesh_AB)
     (simp add: mesh0_def constructor_def destroy_def Let_def do_action_def on_initialize_def
        createPeer_def on_room_count_def signal_waitFor_fires_def checkFullConnect_def
        isFullyConnected_def getConnectedPeerCount_def emit_full_connect_def)

section \<open>When full-connect is emitted\<close>

lemma full_connect_emitted_iff:
  "Emit_full_connect \<in> set (out (step e s)) \<longleftrightarrow> checks e \<and> isFullyConnected (step e s)"
proof (cases e)
  case (RoomCount n)
  let ?t = "checkFullConnect (do_action (Emit_room_count n) (s\<lparr>out := [], roomCount := Some n\<rparr>))"
  have t: "isFullyConnected ?t = isFullyConnected (step e s)"
    by (rule isFullyConnected_cong) (simp_all add: RoomCount step_def on_room_count_def)
  from out_signal_waitFor_fires [of n ?t] show ?thesis
    unfolding t [symmetric] by (auto simp add: RoomCount step_def on_room_count_def)
next
  case (PeerConnect i)
  then show ?thesis by (simp add: step_def on_peer_connect_def)
next
  case (Destroy i)
  then show ?thesis by (simp add: step_def out_on_destroy)
qed (simp_all add: step_def on_socket_id_def on_initialize_def on_signal_def Let_def
      on_peer_error_def on_peer_signal_def on_peer_data_def on_peer_stream_def
      on_peer_track_def on_peer_close_def)

text \<open>
  Claim C1, as amended. The notification is level-triggered: \<open>checkFullConnect\<close>
  emits \<open>full-connect\<close> whenever the predicate holds as it is called, and it is called
  by the \<open>room-count\<close> listener and by a capability's \<open>connect\<close> listener. So an
  event emits \<open>full-connect\<close> exactly when it is one of these two and the predicate holds
  after it; whether the predicate held before plays no part.
\<close>

theorem full_connect_level_triggered:
  "out (checkFullConnect s) = out s @ (if isFullyConnected s then [Emit_full_connect] else []) \<and>
   (Emit_full_connect \<in> set (out (step e s)) \<longleftrightarrow> checks e \<and> isFullyConnected (step e s))"
proof
  show "out (checkFullConnect s) = out s @ (if isFullyConnected s then [Emit_full_connect] else [])"
    by (cases "isFullyConnected s") (simp_all add: checkFullConnect_def)
next
  show "Emit_full_connect \<in> set (out (step e s)) \<longleftrightarrow> checks e \<and> isFullyConnected (step e s)"
    by (rule full_connect_emitted_iff)
qed

theorem full_connect_level_triggered_witness:
  "checks (RoomCount 1) \<and> isFullyConnected (step (RoomCount 1) mesh0) \<and>
   Emit_full_connect \<in> set (out (step (RoomCount 1) mesh0))"
proof -
  have "isFullyConnected (step (RoomCount 1) mesh0)"
    by code_simp
  with full_connect_level_triggered [of mesh0 "RoomCount 1"] show ?thesis by simp
qed

text \<open>
  The claim as stated fails. Alone in a room, a second \<open>room-count\<close> update finds the
  predicate true as the first one left it, and \<open>full-connect\<close> is emitted again. And
  while \<open>join\<close> waits for the room count, one update emits it twice: once from the
  listener, once from \<open>join\<close> itself.
\<close>

theorem full_connect_edge_triggered_counterexample:
  "isFullyConnected (step (RoomCount 1) mesh0) \<and>
   isFullyConnected (step (RoomCount 1) (step (RoomCount 1) mesh0)) \<and>
   Emit_full_connect \<in> set (out (step (RoomCount 1) (step (RoomCount 1) mesh0))) \<and>
   out (handle (RoomCount 1) (join ''r'' ''pw'' mesh0)) =
     [Signal_join ''app'' ''r'' ''pw'', Emit_room_count 1, Emit_full_connect, Emit_full_connect]"
  by code_simp

section \<open>When the predicate is evaluated\<close>

lemma length_filter_delete:
  "length (filter P (AList.delete i ps)) \<le> length (filter P ps)"
  by (induction ps) (simp_all add: AList.delete_eq le_SucI)

lemma isFullyConnected_after_destroy:
  "isFullyConnected (on_destroy i s) \<Longrightarrow> isFullyConnected s"
  using length_filter_delete [of "\<lambda>kp. connected (snd kp)" i "peers s"]
  by (simp add: isFullyConnected_def getConnectedPeerCount_def peers_on_destroy
      split: option.splits)

text \<open>
  Claim C5, as amended. The predicate is evaluated after every \<open>room-count\<close> update
  and after every capability's \<open>connect\<close>; it is not evaluated when a peer goes away,
  be it on the relay's \<open>destroy\<close>, on the capability's \<open>close\<close> or \<open>error\<close>, or in
  \<open>destroy()\<close>. A departure cannot make the predicate true. Nothing is cached:
  \<open>isFullyConnected\<close> is computed from the peer map and the room count as they are.
\<close>

theorem completion_recomputed:
  "(Emit_full_connect \<in> set (out (step (RoomCount n) s))
      \<longleftrightarrow> isFullyConnected (step (RoomCount n) s)) \<and>
   (Emit_full_connect \<in> set (out (step (PeerConnect i) s))
      \<longleftrightarrow> isFullyConnected (step (PeerConnect i) s)) \<and>
   Emit_full_connect \<notin> set (out (step (Destroy i) s)) \<and>
   Emit_full_connect \<notin> set (out (step (PeerClose i) s)) \<and>
   Emit_full_connect \<notin> set (out (step (PeerError i err) s)) \<and>
   Emit_full_connect \<notin> set (out (destroy (s\<lparr>out := []\<rparr>))) \<and>
   (isFullyConnected (step (Destroy i) s) \<longrightarrow> isFullyConnected s) \<and>
   (isFullyConnected s \<longleftrightarrow>
      (\<exists>m. roomCount s = Some m \<and>
           m \<le> int (length (filter (\<lambda>kp. connected (snd kp)) (peers s))) + 1))"
proof -
  have "isFullyConnected (step (Destroy i) s) \<longrightarrow> isFullyConnected s"
    using isFullyConnected_after_destroy [of i "s\<lparr>out := []\<rparr>"] by (simp add: step_def)
  moreover have "Emit_full_connect \<notin> set (out (destroy (s\<lparr>out := []\<rparr>)))"
    by (auto simp add: out_destroy)
  moreover have "isFullyConnected s \<longleftrightarrow>
      (\<exists>m. roomCount s = Some m \<and>
           m \<le> int (length (filter (\<lambda>kp. connected (snd kp)) (peers s))) + 1)"
    by (simp add: isFullyConnected_def getConnectedPeerCount_def split: option.splits)
  ultimately show ?thesis
    by (simp add: full_connect_emitted_iff)
qed

theorem completion_recomputed_witness:
  "isFullyConnected (step (Destroy ''a'') (run [RoomCount 1, Initialize ''a''] mesh0)) \<and>
   isFullyConnected (run [RoomCount 1, Initialize ''a''] mesh0)"
proof -
  have "isFullyConnected (step (Destroy ''a'') (run [RoomCount 1, Initialize ''a''] mesh0))"
    by code_simp
  with completion_recomputed [where i = "''a''" and s = "run [RoomCount 1, Initialize ''a''] mesh0"]
  show ?thesis by blast
qed

text \<open>
  The claim as stated fails: a pending peer leaves a room of one, the predicate holds
  afterwards, and the \<open>destroy\<close> listener has not evaluated it, where a call of
  \<open>checkFullConnect\<close> would have emitted \<open>full-connect\<close>.
\<close>

theorem destroy_recomputes_counterexample:
  "isFullyConnected (step (Destroy ''a'') (run [RoomCount 1, Initialize ''a''] mesh0)) \<and>
   out (step (Destroy ''a'') (run [RoomCount 1, Initialize ''a''] mesh0))
     = [Peer_destroy ''a'', Emit_disconnect ''a''] \<and>
   out (checkFullConnect (step (Destroy ''a'') (run [RoomCount 1, Initialize ''a''] mesh0)))
     = [Peer_destroy ''a'', Emit_disconnect ''a'', Emit_full_connect]"
  by code_simp

section \<open>Before the first room count\<close>

lemma roomCount_handle_None:
  "\<not> is_RoomCount e \<Longrightarrow> roomCount (handle e s) = roomCount s"
  by (cases e)
     (simp_all add: on_socket_id_def on_initialize_def
        on_signal_def Let_def on_peer_error_def on_peer_signal_def on_peer_connect_def
        on_peer_data_def on_peer_stream_def on_peer_track_def on_peer_close_def)

lemma out_handle_undefined:
  "roomCount s = None \<Longrightarrow> \<not> is_RoomCount e \<Longrightarrow>
   Emit_full_connect \<in> set (out (handle e s)) \<longleftrightarrow> Emit_full_connect \<in> set (out s)"
  by (cases e)
     (simp_all add: on_socket_id_def on_initialize_def out_on_destroy
        on_signal_def Let_def on_peer_error_def on_peer_signal_def on_peer_connect_def
        on_peer_data_def on_peer_stream_def on_peer_track_def on_peer_close_def
        isFullyConnected_def)

lemma no_full_connect_while_undefined:
  "roomCount s = None \<Longrightarrow> \<forall>e \<in> set es. \<not> is_RoomCount e \<Longrightarrow>
   Emit_full_connect \<notin> set (out s) \<Longrightarrow>
   roomCount (run es s) = None \<and> Emit_full_connect \<notin> set (out (run es s))"
proof (induction es arbitrary: s)
  case Nil
  then show ?case by simp
next
  case (Cons e es)
  have "roomCount (handle e s) = None"
    using Cons.prems by (simp add: roomCount_handle_None)
  moreover have "Emit_full_connect \<notin> set (out (handle e s))"
    using Cons.prems by (simp add: out_handle_undefined)
  ultimately show ?case using Cons.IH [of "handle e s"] Cons.prems by simp
qed

lemma sp_fullConnect_at_initial_count:
  "sp_roomCount s = - 1 \<Longrightarrow> Fire_fullConnect \<in> set (sp_out (sp_on_peer_connect i s))"
  by (simp add: sp_on_peer_connect_def sp_checkFullConnect_def sp_log_def Let_def)

text \<open>
  Claim C8. \<open>SimplePeerMesh\<close> starts with the room count \<open>-1\<close>, and
  \<open>peerCount + 1 >= -1\<close> holds: a peer that connects before the first \<open>roomCount\<close>
  message makes it fire \<open>fullConnect\<close>. (\<open>MultiPeerMesh\<close>, whose room count is
  \<open>undefined\<close> until the first update, does not: \<open>no_full_connect_while_undefined\<close>.)
\<close>

theorem simple_mesh_fullConnect_before_roomCount:
  "sp_run [SpInitialize ''a'', SpPeerConnect ''a''] sp_constructor =
     Inr \<lparr>sp_peers = [(''a'', \<lparr>initiator = True, trickle = True, stream = None,
                                connected = True, destroyed = False\<rparr>)],
          sp_roomCount = - 1, sp_joining = SpNotJoined,
          sp_out = [Fire_connect ''a'', Fire_fullConnect]\<rparr>"
  by (simp add: sp_constructor_def sp_on_initialize_def sp_on_peer_connect_def
      sp_createPeer_def sp_log_def sp_checkFullConnect_def sp_getConnectedPeerCount_def)

section \<open>Sending\<close>

lemma broadcast_loop_eq:
  "broadcast_loop f m ps s =
     s\<lparr>out := out s @ map (\<lambda>kp. Peer_send (fst kp) (canonical_text f m)) ps\<rparr>"
  by (induction ps arbitrary: s)
     (simp_all add: do_action_def canonical_text_def split: message.splits)

lemma broadcast_eq:
  "broadcast f m s =
     s\<lparr>out := out s @ map (\<lambda>kp. Peer_send (fst kp) (canonical_text f m)) (peers s)\<rparr>"
  by (simp add: broadcast_def broadcast_loop_eq)

lemma send_eq:
  "send f i m s =
     (if hasOwnProperty (peers s) i then do_action (Peer_send i (canonical_text f m)) s else s)"
  by (simp add: send_def canonical_text_def split: message.splits)

text \<open>
  Claim C2, as amended. \<open>broadcast\<close> passes the text of the message to the capability
  of every entry of the peer map, connected or not; an identity without an entry gets
  nothing. The peer map is left as it was.
\<close>

theorem broadcast_reaches_every_entry:
  "(Peer_send k t \<in> set (out (broadcast f m (s\<lparr>out := []\<rparr>)))
      \<longleftrightarrow> hasOwnProperty (peers s) k \<and> t = canonical_text f m) \<and>
   peers (broadcast f m s) = peers s"
proof
  have "out (broadcast f m (s\<lparr>out := []\<rparr>)) =
          map (\<lambda>kp. Peer_send (fst kp) (canonical_text f m)) (peers s)"
    by (simp add: broadcast_eq)
  then show "Peer_send k t \<in> set (out (broadcast f m (s\<lparr>out := []\<rparr>)))
      \<longleftrightarrow> hasOwnProperty (peers s) k \<and> t = canonical_text f m"
    by (auto simp add: hasOwnProperty_iff)
next
  show "peers (broadcast f m s) = peers s"
    by (simp add: broadcast_eq)
qed

theorem broadcast_reaches_every_entry_witness:
  "hasOwnProperty (peers mesh_AB) ''A'' \<and>
   Peer_send ''A'' ''hello'' \<in> set (out (broadcast stringify_bool (Text ''hello'') (mesh_AB\<lparr>out := []\<rparr>)))"
  using broadcast_reaches_every_entry
    [where k = "''A''" and t = "''hello''" and f = stringify_bool and m = "Text ''hello''"
       and s = mesh_AB]
  by (simp add: peers_mesh_AB hasOwnProperty_def canonical_text_def)

text \<open>
  The claim as stated fails: with A connected and B pending, \<open>broadcast("hello")\<close>
  calls \<open>send\<close> on B's capability too.
\<close>

theorem broadcast_skips_pending_counterexample:
  "map_of (peers mesh_AB) ''B'' =
     Some \<lparr>initiator = False, trickle = True, stream = None, connected = False, destroyed = False\<rparr> \<and>
   out (broadcast stringify_bool (Text ''hello'') mesh_AB)
     = [Peer_send ''A'' ''hello'', Peer_send ''B'' ''hello'']"
  by (simp add: broadcast_eq peers_mesh_AB out_mesh_AB canonical_text_def)

lemma peers_broadcast_each_loop:
  "peers (broadcast_each_loop st m ps s) = peers s"
  by (induction st m ps s rule: broadcast_each_loop.induct) simp_all

lemma out_broadcast_each_loop_Text:
  "out (broadcast_each_loop st (Text t) ps s) = out s @ map (\<lambda>kp. Peer_send (fst kp) t) ps"
  by (induction ps arbitrary: s) simp_all

lemma out_broadcast_each_loop_Structured:
  "out (broadcast_each_loop st (Structured v) ps s) =
     out s @ map2 (\<lambda>kp t. Peer_send (fst kp) t) ps (encodings st v (length ps))"
  by (induction ps arbitrary: s v) simp_all

lemma encodings_stable:
  "\<forall>u. snd (st u) = u \<Longrightarrow> encodings st v n = replicate n (fst (st v))"
  by (induction n) simp_all

lemma map2_replicate:
  "map2 f ps (replicate (length ps) x) = map (\<lambda>kp. f kp x) ps"
  by (induction ps) simp_all

lemma broadcast_each_loop_pure:
  "broadcast_each_loop (\<lambda>u. (f u, u)) m ps s = broadcast_loop f m ps s"
proof (induction ps arbitrary: s)
  case Nil
  show ?case by simp
next
  case (Cons kp ps)
  then show ?case by (cases m) simp_all
qed

text \<open>
  Claim C6, as amended. \<open>broadcast\<close> encodes a payload that is not text anew for
  every entry of the peer map, inside its loop: the entries get, in turn, the texts of
  successive calls of \<open>JSON.stringify\<close>. When encoding leaves the payload as it is,
  all of them, hence all connected peers, get the same text. For such a payload this is
  \<open>broadcast\<close> as modelled with a function for \<open>JSON.stringify\<close>. A text payload is
  sent as it is, by \<open>broadcast\<close> and by \<open>send\<close>, and \<open>send\<close> encodes any other
  payload by the same rule.
\<close>

theorem broadcast_encodes_per_recipient:
  "out (broadcast_each st (Text t) (s\<lparr>out := []\<rparr>)) = map (\<lambda>kp. Peer_send (fst kp) t) (peers s) \<and>
   out (broadcast_each st (Structured v) (s\<lparr>out := []\<rparr>)) =
     map2 (\<lambda>kp t. Peer_send (fst kp) t) (peers s) (encodings st v (length (peers s))) \<and>
   ((\<forall>u. snd (st u) = u) \<longrightarrow>
      out (broadcast_each st (Structured v) (s\<lparr>out := []\<rparr>)) =
        map (\<lambda>kp. Peer_send (fst kp) (fst (st v))) (peers s)) \<and>
   peers (broadcast_each st m s) = peers s \<and>
   broadcast_each (\<lambda>u. (f u, u)) m s = broadcast f m s \<and>
   (hasOwnProperty (peers s) i \<longrightarrow>
      out (send f i (Text t) (s\<lparr>out := []\<rparr>)) = [Peer_send i t] \<and>
      out (send f i (Structured w) (s\<lparr>out := []\<rparr>)) = [Peer_send i (f w)])"
proof -
  have 1: "out (broadcast_each st (Text t) (s\<lparr>out := []\<rparr>)) =
      map (\<lambda>kp. Peer_send (fst kp) t) (peers s)"
    by (simp add: broadcast_each_def out_broadcast_each_loop_Text)
  have 2: "out (broadcast_each st (Structured v) (s\<lparr>out := []\<rparr>)) =
      map2 (\<lambda>kp t. Peer_send (fst kp) t) (peers s) (encodings st v (length (peers s)))"
    by (simp add: broadcast_each_def out_broadcast_each_loop_Structured)
  have 3: "out (broadcast_each st (Structured v) (s\<lparr>out := []\<rparr>)) =
      map (\<lambda>kp. Peer_send (fst kp) (fst (st v))) (peers s)"
    if "\<forall>u. snd (st u) = u"
    unfolding 2 encodings_stable [OF that] by (rule map2_replicate)
  have 4: "peers (broadcast_each st m s) = peers s"
    by (simp add: broadcast_each_def peers_broadcast_each_loop)
  have 5: "broadcast_each (\<lambda>u. (f u, u)) m s = broadcast f m s"
    by (simp add: broadcast_each_def broadcast_def broadcast_each_loop_pure)
  have 6: "hasOwnProperty (peers s) i \<longrightarrow>
      out (send f i (Text t) (s\<lparr>out := []\<rparr>)) = [Peer_send i t] \<and>
      out (send f i (Structured w) (s\<lparr>out := []\<rparr>)) = [Peer_send i (f w)]"
    by (simp add: send_def)
  from 1 2 3 4 5 6 show ?thesis by blast
qed

lemma peers_mesh_two:
  "peers mesh_two =
     [(''A'', \<lparr>initiator = True, trickle = True, stream = None, connected = True, destroyed = False\<rparr>),
      (''B'', \<lparr>initiator = True, trickle = True, stream = None, connected = True, destroyed = False\<rparr>)]"
  by (simp add: mesh_two_def mesh0_def constructor_def on_initialize_def on_peer_connect_def
      createPeer_def checkFullConnect_def isFullyConnected_def do_action_def)

lemma out_mesh_two: "out mesh_two = []"
  by (simp add: mesh_two_def)

theorem broadcast_encodes_per_recipient_witness:
  "snd (stringify_plain True) = True \<and> snd (stringify_plain False) = False \<and>
   out (broadcast_each stringify_plain (Structured True) (mesh_two\<lparr>out := []\<rparr>)) =
     [Peer_send ''A'' ''true'', Peer_send ''B'' ''true''] \<and>
   hasOwnProperty (peers mesh_two) ''A'' \<and>
   out (send stringify_bool ''A'' (Structured True) (mesh_two\<lparr>out := []\<rparr>)) = [Peer_send ''A'' ''true'']"
proof -
  have h: "\<forall>u. snd (stringify_plain u) = u"
    by (simp add: stringify_plain_def)
  have a: "hasOwnProperty (peers mesh_two) ''A''"
    by (simp add: peers_mesh_two hasOwnProperty_def)
  from broadcast_encodes_per_recipient
    [where st = stringify_plain and v = True and s = mesh_two and i = "''A''"
       and f = stringify_bool and w = True] h a
  have "out (broadcast_each stringify_plain (Structured True) (mesh_two\<lparr>out := []\<rparr>)) =
          map (\<lambda>kp. Peer_send (fst kp) (fst (stringify_plain True))) (peers mesh_two)"
    and "out (send stringify_bool ''A'' (Structured True) (mesh_two\<lparr>out := []\<rparr>))
          = [Peer_send ''A'' (stringify_bool True)]"
    by blast+
  with a show ?thesis
    by (simp add: peers_mesh_two stringify_plain_def stringify_bool_def)
qed

text \<open>
  The claim as stated fails: the payload is not encoded once. With A and B both
  connected and a payload whose \<open>toJSON\<close> flips a flag, A is sent \<open>true\<close> and B is
  sent \<open>false\<close>.
\<close>

theorem broadcast_encodes_once_counterexample:
  "peers mesh_two =
     [(''A'', \<lparr>initiator = True, trickle = True, stream = None, connected = True, destroyed = False\<rparr>),
      (''B'', \<lparr>initiator = True, trickle = True, stream = None, connected = True, destroyed = False\<rparr>)] \<and>
   out (broadcast_each stringify_toggle (Structured True) mesh_two) =
     [Peer_send ''A'' ''true'', Peer_send ''B'' ''false'']"
  by (simp add: peers_mesh_two out_mesh_two broadcast_each_def out_broadcast_each_loop_Structured
      stringify_toggle_def stringify_bool_def)

text \<open>
  Claim C4, as amended. \<open>send\<close> looks the identity up in the peer map. Without an
  entry it does nothing and raises nothing. With an entry it passes the text of the
  message to that one capability, whatever the state of its connection. (Nothing is said
  here of \<open>sendStream\<close> and \<open>removeStream\<close>; see below.)
\<close>

theorem send_lookup:
  "(\<not> hasOwnProperty (peers s) i \<longrightarrow> send f i m s = s) \<and>
   (hasOwnProperty (peers s) i \<longrightarrow>
      send f i m s = s\<lparr>out := out s @ [Peer_send i (canonical_text f m)]\<rparr>)"
proof (cases "hasOwnProperty (peers s) i")
  case True
  then have "send f i m s = do_action (Peer_send i (canonical_text f m)) s"
    by (simp add: send_eq)
  with True show ?thesis by (simp add: do_action_def)
next
  case False
  then show ?thesis by (simp add: send_eq)
qed

theorem send_lookup_witness:
  "\<not> hasOwnProperty (peers mesh_AB) ''Z'' \<and>
   send stringify_bool ''Z'' (Text ''hi'') mesh_AB = mesh_AB \<and>
   hasOwnProperty (peers mesh_AB) ''A'' \<and>
   send stringify_bool ''A'' (Text ''hi'') mesh_AB = mesh_AB\<lparr>out := [Peer_send ''A'' ''hi'']\<rparr>"
proof -
  have h: "\<not> hasOwnProperty (peers mesh_AB) ''Z''" "hasOwnProperty (peers mesh_AB) ''A''"
    by (simp_all add: peers_mesh_AB hasOwnProperty_def)
  from send_lookup [where s = mesh_AB and i = "''Z''" and f = stringify_bool and m = "Text ''hi''"]
       send_lookup [where s = mesh_AB and i = "''A''" and f = stringify_bool and m = "Text ''hi''"] h
  show ?thesis by (simp add: canonical_text_def out_mesh_AB)
qed

text \<open>
  The claim as stated fails: B has an entry whose connection is pending, and
  \<open>send("B", "hi")\<close> is not a no-op, it calls \<open>send\<close> on B's capability.
\<close>

theorem send_to_pending_counterexample:
  "map_of (peers mesh_AB) ''B'' =
     Some \<lparr>initiator = False, trickle = True, stream = None, connected = False, destroyed = False\<rparr> \<and>
   out (send stringify_bool ''B'' (Text ''hi'') mesh_AB) = [Peer_send ''B'' ''hi'']"
  by (simp add: send_eq peers_mesh_AB out_mesh_AB hasOwnProperty_def canonical_text_def)

text \<open>
  \<open>sendStream\<close> and \<open>removeStream\<close> do not look the identity up: their test asks
  for a property named \<open>true\<close>. A connected peer A is not reached, and an unknown
  identity raises once some peer is called \<open>true\<close>.
\<close>

lemma sendStream_known_peer_not_reached:
  "map_of (peers mesh_AB) ''A'' =
     Some \<lparr>initiator = True, trickle = True, stream = None, connected = True, destroyed = False\<rparr> \<and>
   sendStream ''A'' ''cam'' mesh_AB = Inr mesh_AB \<and>
   removeStream ''A'' ''cam'' mesh_AB = Inr mesh_AB"
  by (simp add: sendStream_def removeStream_def stream_guard_key_def peers_mesh_AB
      hasOwnProperty_def)

lemma sendStream_raises:
  "sendStream ''Z'' ''cam'' (run [Initialize ''true''] mesh0) = Inl TypeError \<and>
   removeStream ''Z'' ''cam'' (run [Initialize ''true''] mesh0) = Inl TypeError"
  by (simp add: sendStream_def removeStream_def stream_guard_key_def mesh0_def constructor_def
      on_initialize_def createPeer_def hasOwnProperty_def)

section \<open>join\<close>

lemma join_state_checkFullConnect_unarmed:
  "join_state s \<noteq> AwaitFullConnect \<Longrightarrow> join_state (checkFullConnect s) = join_state s"
  by (simp add: checkFullConnect_def emit_full_connect_def join_finish_def Let_def
      split: option.splits)

lemma signal_waitFor_fires_joining:
  "rc_wait u = Some (waitFor ''room-count'' (Some 5000)) \<Longrightarrow> join_state u = AwaitRoomCount \<Longrightarrow>
   signal_waitFor_fires n u =
     join_continue n (u\<lparr>rc_wait := Some (waitFor_listener (waitFor ''room-count'' (Some 5000)))\<rparr>)"
  by (simp add: signal_waitFor_fires_def Let_def waitFor_def waitFor_listener_def resolve_def)

lemma join_continue_state:
  "join_state (join_continue n u) = (if n = 1 then JoinResolved else AwaitFullConnect) \<and>
   (n \<noteq> 1 \<longrightarrow> fc_wait (join_continue n u) = Some (waitFor ''full-connect'' (Some 10000)))"
  by (simp add: join_continue_def Let_def)

lemma join_first_count:
  "join_state (handle (RoomCount n) (join r pw s)) =
     (if n = 1 then JoinResolved else AwaitFullConnect) \<and>
   (n \<noteq> 1 \<longrightarrow> armed (handle (RoomCount n) (join r pw s)))"
proof -
  let ?t = "checkFullConnect (do_action (Emit_room_count n) ((join r pw s)\<lparr>roomCount := Some n\<rparr>))"
  have 1: "join_state ?t = AwaitRoomCount"
    by (subst join_state_checkFullConnect_unarmed) (simp_all add: join_def)
  have 2: "rc_wait ?t = Some (waitFor ''room-count'' (Some 5000))"
    by (simp add: join_def)
  have "handle (RoomCount n) (join r pw s) = signal_waitFor_fires n ?t"
    by (simp add: on_room_count_def)
  also note signal_waitFor_fires_joining [OF 2 1]
  finally show ?thesis
    using join_continue_state by (simp add: armed_def)
qed

lemma join_room_count_timeout:
  "join_state (handle TimerRoomCount (join r pw s)) = JoinRejected (Timeout ''room-count'' 5000)"
  by (simp add: on_timer_room_count_def join_def waitFor_def waitFor_timer_def reject_def Let_def)

lemma armed_checkFullConnect:
  "armed t \<Longrightarrow>
     (if isFullyConnected t
      then join_state (checkFullConnect t) = JoinResolved \<and>
           fc_wait (checkFullConnect t) =
             Some ((waitFor ''full-connect'' (Some 10000))
                     \<lparr>settled := Resolved, listening := False, timer := False\<rparr>)
      else checkFullConnect t = t)"
  by (simp add: armed_def checkFullConnect_def emit_full_connect_def join_finish_def Let_def
      waitFor_def waitFor_listener_def resolve_def do_action_def)

lemma armed_timer:
  "armed t \<Longrightarrow>
     join_state (handle TimerFullConnect t) = JoinRejected (Timeout ''full-connect'' 10000) \<and>
     fc_wait (handle TimerFullConnect t) =
       Some ((waitFor ''full-connect'' (Some 10000))
               \<lparr>settled := Rejected (Timeout ''full-connect'' 10000), timer := False\<rparr>)"
  by (simp add: armed_def on_timer_full_connect_def join_finish_def
      waitFor_def waitFor_timer_def reject_def)

lemma armed_update [simp]:
  "armed (s\<lparr>peers := ps\<rparr>) = armed s"
  "armed (s\<lparr>roomCount := c\<rparr>) = armed s"
  "armed (s\<lparr>out := l\<rparr>) = armed s"
  "armed (do_action a s) = armed s"
  by (simp_all add: armed_def)

lemma armed_signal_waitFor_fires:
  "join_state s \<noteq> AwaitRoomCount \<Longrightarrow>
   join_state (signal_waitFor_fires n s) = join_state s \<and>
   fc_wait (signal_waitFor_fires n s) = fc_wait s"
  by (simp add: signal_waitFor_fires_def Let_def split: option.splits)

lemma armed_step:
  assumes "armed t"
  shows "armed (handle e t) \<or>
         (join_state (handle e t) = JoinResolved \<and> isFullyConnected (handle e t)) \<or>
         (e = TimerFullConnect \<and>
          join_state (handle e t) = JoinRejected (Timeout ''full-connect'' 10000))"
proof (cases e)
  case (RoomCount n)
  let ?u = "do_action (Emit_room_count n) (t\<lparr>roomCount := Some n\<rparr>)"
  have u: "armed ?u" using assms by simp
  have c: "join_state (checkFullConnect ?u) \<noteq> AwaitRoomCount"
    using armed_checkFullConnect [OF u] u by (auto simp add: armed_def split: if_splits)
  from armed_signal_waitFor_fires [OF c, of n] armed_checkFullConnect [OF u]
  show ?thesis
    using assms [unfolded armed_def]
    by (cases "isFullyConnected ?u") (simp_all add: RoomCount on_room_count_def armed_def)
next
  case (PeerConnect i)
  let ?u = "do_action (Emit_connect i)
              (t\<lparr>peers := AList.map_entry i (\<lambda>p. p\<lparr>connected := True\<rparr>) (peers t)\<rparr>)"
  have u: "armed ?u" using assms by simp
  from armed_checkFullConnect [OF u] u show ?thesis
    by (cases "isFullyConnected ?u") (simp_all add: PeerConnect on_peer_connect_def)
next
  case TimerFullConnect
  then show ?thesis using armed_timer [OF assms] by simp
next
  case TimerRoomCount
  then show ?thesis using assms
    by (simp add: armed_def on_timer_room_count_def Let_def split: option.splits)
next
  case (Destroy i)
  then show ?thesis using assms
    by (simp add: armed_def on_destroy_def Let_def split: option.splits sum.splits)
qed (use assms in \<open>simp_all add: on_socket_id_def on_initialize_def on_signal_def Let_def
      on_peer_error_def on_peer_signal_def on_peer_data_def on_peer_stream_def
      on_peer_track_def on_peer_close_def\<close>)

lemma join_settled_handle:
  assumes "join_state t \<noteq> AwaitRoomCount" "join_state t \<noteq> AwaitFullConnect"
  shows "join_state (handle e t) = join_state t"
proof (cases e)
  case (RoomCount n)
  let ?u = "checkFullConnect (do_action (Emit_room_count n) (t\<lparr>roomCount := Some n\<rparr>))"
  have u: "join_state ?u = join_state t"
    by (subst join_state_checkFullConnect_unarmed) (simp_all add: assms)
  then have "join_state ?u \<noteq> AwaitRoomCount" using assms by simp
  from armed_signal_waitFor_fires [OF this, of n] u show ?thesis
    by (simp add: RoomCount on_room_count_def)
next
  case (PeerConnect i)
  then show ?thesis
    by (simp add: on_peer_connect_def join_state_checkFullConnect_unarmed assms)
next
  case TimerFullConnect
  then show ?thesis using assms
    by (simp add: on_timer_full_connect_def join_finish_def split: option.splits)
next
  case TimerRoomCount
  then show ?thesis using assms
    by (simp add: on_timer_room_count_def Let_def split: option.splits)
next
  case (Destroy i)
  then show ?thesis
    by (simp add: on_destroy_def Let_def split: option.splits sum.splits)
qed (simp_all add: on_socket_id_def on_initialize_def on_signal_def Let_def
      on_peer_error_def on_peer_signal_def on_peer_data_def on_peer_stream_def
      on_peer_track_def on_peer_close_def)

lemma join_settled_run:
  "join_state t \<noteq> AwaitRoomCount \<Longrightarrow> join_state t \<noteq> AwaitFullConnect \<Longrightarrow>
   join_state (run es t) = join_state t"
  by (induction es arbitrary: t) (simp_all add: join_settled_handle)

lemma armed_run_resolved:
  "armed t \<Longrightarrow> join_state (run es t) = JoinResolved \<Longrightarrow>
   \<exists>es1 e es2. es = es1 @ e # es2 \<and> join_state (run es1 t) = AwaitFullConnect \<and>
      join_state (run (es1 @ [e]) t) = JoinResolved \<and> isFullyConnected (run (es1 @ [e]) t)"
proof (induction es arbitrary: t)
  case Nil
  then show ?case by (simp add: armed_def)
next
  case (Cons e es)
  from armed_step [OF Cons.prems(1), of e]
  consider (a) "armed (handle e t)"
    | (b) "join_state (handle e t) = JoinResolved" "isFullyConnected (handle e t)"
    | (c) "join_state (handle e t) = JoinRejected (Timeout ''full-connect'' 10000)"
    by blast
  then show ?case
  proof cases
    case a
    from Cons.IH [OF a] Cons.prems(2)
    obtain es1 e' es2 where "es = es1 @ e' # es2"
      and "join_state (run es1 (handle e t)) = AwaitFullConnect"
      and "join_state (run (es1 @ [e']) (handle e t)) = JoinResolved"
      and "isFullyConnected (run (es1 @ [e']) (handle e t))" by auto
    then have "e # es = (e # es1) @ e' # es2 \<and>
        join_state (run (e # es1) t) = AwaitFullConnect \<and>
        join_state (run ((e # es1) @ [e']) t) = JoinResolved \<and>
        isFullyConnected (run ((e # es1) @ [e']) t)"
      by simp
    then show ?thesis by blast
  next
    case b
    with Cons.prems(1)
    have "e # es = [] @ e # es \<and> join_state (run [] t) = AwaitFullConnect \<and>
        join_state (run ([] @ [e]) t) = JoinResolved \<and> isFullyConnected (run ([] @ [e]) t)"
      by (simp add: armed_def)
    then show ?thesis by blast
  next
    case c
    then have "join_state (run es (handle e t)) = JoinRejected (Timeout ''full-connect'' 10000)"
      by (simp add: join_settled_run)
    with Cons.prems(2) show ?thesis by simp
  qed
qed

lemma armed_or_settled_run:
  "armed t \<Longrightarrow> join_state (run es t) = AwaitFullConnect \<Longrightarrow> armed (run es t)"
proof (induction es arbitrary: t)
  case Nil
  then show ?case by simp
next
  case (Cons e es)
  from armed_step [OF Cons.prems(1), of e]
  consider (a) "armed (handle e t)"
    | (b) "join_state (handle e t) = JoinResolved"
    | (c) "join_state (handle e t) = JoinRejected (Timeout ''full-connect'' 10000)"
    by blast
  then show ?case
  proof cases
    case a
    with Cons show ?thesis by simp
  next
    case b
    then have "join_state (run es (handle e t)) = JoinResolved"
      by (simp add: join_settled_run)
    with Cons.prems(2) show ?thesis by simp
  next
    case c
    then have "join_state (run es (handle e t)) = JoinRejected (Timeout ''full-connect'' 10000)"
      by (simp add: join_settled_run)
    with Cons.prems(2) show ?thesis by simp
  qed
qed

lemma roomCount_run:
  "\<forall>e \<in> set es. \<not> is_RoomCount e \<Longrightarrow> roomCount (run es s) = roomCount s"
  by (induction es arbitrary: s) (simp_all add: roomCount_handle_None)

lemma roomCount_after_RoomCount: "roomCount (handle (RoomCount n) s) = Some n"
  by (simp add: on_room_count_def)

text \<open>
  Claim C3, as amended. When the first room count reported to \<open>join\<close> is 1,
  \<open>join\<close> resolves at once, whatever the peer map holds. When it is another number
  \<open>n\<close>, \<open>join\<close> waits; if it is resolved after further events, then it was
  resolved by one of them, and after that event the peers whose capability is connected
  numbered at least the room count of that moment less one. That room count is \<open>n\<close>
  when no later update changed it. While \<open>join\<close> still waits, the timer of the wait
  rejects it with a timeout. The wait for the room count itself is rejected by its own
  timer.
\<close>

theorem join_resolves_at_full_connect:
  "join_state (handle (RoomCount 1) (join r pw s)) = JoinResolved \<and>
   (n \<noteq> 1 \<longrightarrow> join_state (handle (RoomCount n) (join r pw s)) = AwaitFullConnect) \<and>
   (n \<noteq> 1 \<and> join_state (run es (handle (RoomCount n) (join r pw s))) = JoinResolved \<longrightarrow>
      (\<exists>es1 e es2 m. es = es1 @ e # es2 \<and>
         join_state (run es1 (handle (RoomCount n) (join r pw s))) = AwaitFullConnect \<and>
         join_state (run (es1 @ [e]) (handle (RoomCount n) (join r pw s))) = JoinResolved \<and>
         roomCount (run (es1 @ [e]) (handle (RoomCount n) (join r pw s))) = Some m \<and>
         m - 1 \<le> int (length (filter (\<lambda>kp. connected (snd kp))
                    (peers (run (es1 @ [e]) (handle (RoomCount n) (join r pw s)))))) \<and>
         ((\<forall>e' \<in> set es. \<not> is_RoomCount e') \<longrightarrow> m = n))) \<and>
   (n \<noteq> 1 \<and> join_state (run es (handle (RoomCount n) (join r pw s))) = AwaitFullConnect \<longrightarrow>
      join_state (handle TimerFullConnect (run es (handle (RoomCount n) (join r pw s))))
        = JoinRejected (Timeout ''full-connect'' 10000)) \<and>
   join_state (handle TimerRoomCount (join r pw s)) = JoinRejected (Timeout ''room-count'' 5000)"
proof -
  let ?j = "handle (RoomCount n) (join r pw s)"
  have 1: "join_state (handle (RoomCount 1) (join r pw s)) = JoinResolved"
    using join_first_count [of 1 r pw s] by simp
  have 2: "n \<noteq> 1 \<longrightarrow> join_state ?j = AwaitFullConnect"
    using join_first_count [of n r pw s] by simp
  have 3: "\<exists>es1 e es2 m. es = es1 @ e # es2 \<and>
         join_state (run es1 ?j) = AwaitFullConnect \<and>
         join_state (run (es1 @ [e]) ?j) = JoinResolved \<and>
         roomCount (run (es1 @ [e]) ?j) = Some m \<and>
         m - 1 \<le> int (length (filter (\<lambda>kp. connected (snd kp)) (peers (run (es1 @ [e]) ?j)))) \<and>
         ((\<forall>e' \<in> set es. \<not> is_RoomCount e') \<longrightarrow> m = n)"
    if n: "n \<noteq> 1" and res: "join_state (run es ?j) = JoinResolved"
  proof -
    from n join_first_count [of n r pw s] have "armed ?j" by simp
    from armed_run_resolved [OF this res]
    obtain es1 e es2 where es: "es = es1 @ e # es2"
      and w: "join_state (run es1 ?j) = AwaitFullConnect"
      and d: "join_state (run (es1 @ [e]) ?j) = JoinResolved"
      and f: "isFullyConnected (run (es1 @ [e]) ?j)" by blast
    from f obtain m where m: "roomCount (run (es1 @ [e]) ?j) = Some m"
      and c: "m - 1 \<le> int (length (filter (\<lambda>kp. connected (snd kp)) (peers (run (es1 @ [e]) ?j))))"
      by (auto simp add: isFullyConnected_def getConnectedPeerCount_def split: option.splits)
    have "m = n" if "\<forall>e' \<in> set es. \<not> is_RoomCount e'"
    proof -
      from that es have "\<forall>e' \<in> set (es1 @ [e]). \<not> is_RoomCount e'" by simp
      then have "roomCount (run (es1 @ [e]) ?j) = Some n"
        by (simp only: roomCount_run) (simp add: on_room_count_def)
      with m show ?thesis by simp
    qed
    with es w d m c show ?thesis by blast
  qed
  have 4: "join_state (handle TimerFullConnect (run es ?j)) = JoinRejected (Timeout ''full-connect'' 10000)"
    if n: "n \<noteq> 1" and res: "join_state (run es ?j) = AwaitFullConnect"
  proof -
    from n join_first_count [of n r pw s] have "armed ?j" by simp
    from armed_or_settled_run [OF this res] armed_timer show ?thesis by blast
  qed
  from 1 2 3 4 join_room_count_timeout [of r pw s] show ?thesis by blast
qed

theorem join_resolves_at_full_connect_witness:
  "(2::int) \<noteq> 1 \<and>
   join_state (run [Initialize ''a'', PeerConnect ''a''] (handle (RoomCount 2) (join ''r'' ''pw'' mesh0)))
     = JoinResolved \<and>
   \<not> is_RoomCount (Initialize ''a'') \<and> \<not> is_RoomCount (PeerConnect ''a'') \<and>
   (\<exists>es1 e es2. [Initialize ''a'', PeerConnect ''a''] = es1 @ e # es2 \<and>
      roomCount (run (es1 @ [e]) (handle (RoomCount 2) (join ''r'' ''pw'' mesh0))) = Some 2 \<and>
      2 - 1 \<le> int (length (filter (\<lambda>kp. connected (snd kp))
                 (peers (run (es1 @ [e]) (handle (RoomCount 2) (join ''r'' ''pw'' mesh0))))))) \<and>
   join_state (run [Initialize ''a''] (handle (RoomCount 2) (join ''r'' ''pw'' mesh0)))
     = AwaitFullConnect \<and>
   join_state (handle TimerFullConnect
      (run [Initialize ''a''] (handle (RoomCount 2) (join ''r'' ''pw'' mesh0))))
     = JoinRejected (Timeout ''full-connect'' 10000)"
proof -
  have h1: "join_state (run [Initialize ''a'', PeerConnect ''a'']
              (handle (RoomCount 2) (join ''r'' ''pw'' mesh0))) = JoinResolved"
    by code_simp
  have h2: "join_state (run [Initialize ''a''] (handle (RoomCount 2) (join ''r'' ''pw'' mesh0)))
              = AwaitFullConnect"
    by code_simp
  have h3: "\<forall>e' \<in> set [Initialize ''a'', PeerConnect ''a'']. \<not> is_RoomCount e'" by simp
  from join_resolves_at_full_connect [where r = "''r''" and pw = "''pw''" and s = mesh0 and n = 2
         and es = "[Initialize ''a'', PeerConnect ''a'']"]
       join_resolves_at_full_connect [where r = "''r''" and pw = "''pw''" and s = mesh0 and n = 2
         and es = "[Initialize ''a'']"] h1 h2 h3
  show ?thesis by (simp del: run.simps handle.simps) blast
qed

text \<open>
  The claim as stated fails. The first room count is 3, an update to 1 follows before
  any peer is there, and \<open>join\<close> resolves with an empty peer map: no peer is
  connected, where the claim asks for two.
\<close>

theorem join_below_first_count_counterexample:
  "join_state (run [RoomCount 3] (join ''r'' ''pw'' mesh0)) = AwaitFullConnect \<and>
   join_state (run [RoomCount 3, RoomCount 1] (join ''r'' ''pw'' mesh0)) = JoinResolved \<and>
   peers (run [RoomCount 3, RoomCount 1] (join ''r'' ''pw'' mesh0)) = [] \<and>
   getConnectedPeerCount (run [RoomCount 3, RoomCount 1] (join ''r'' ''pw'' mesh0)) = 0"
  by code_simp

text \<open>
  \<open>join\<close> checks for full connection before it registers its wait: when the mesh
  is complete as the first count arrives, \<open>join\<close> waits for the next emission, and
  is rejected if the timer comes first.
\<close>

lemma join_misses_earlier_completion:
  "isFullyConnected (run [Initialize ''a'', PeerConnect ''a'', RoomCount 2] mesh0) \<and>
   join_state (run [RoomCount 2] (join ''r'' ''pw'' (run [Initialize ''a'', PeerConnect ''a''] mesh0)))
     = AwaitFullConnect \<and>
   join_state (run [RoomCount 2, TimerFullConnect]
      (join ''r'' ''pw'' (run [Initialize ''a'', PeerConnect ''a''] mesh0)))
     = JoinRejected (Timeout ''full-connect'' 10000)"
  by code_simp

lemma waiter_settled_once:
  "settled w \<noteq> Pending \<Longrightarrow>
   settled (waitFor_listener w) = settled w \<and> settled (waitFor_timer w) = settled w"
  by (simp add: waitFor_listener_def waitFor_timer_def resolve_def reject_def split: option.splits)

lemma destroy_keeps_join:
  "join_state (destroy t) = join_state t \<and> fc_wait (destroy t) = fc_wait t \<and>
   rc_wait (destroy t) = rc_wait t"
  by (simp add: destroy_def Let_def destroy_loop_rest)

text \<open>
  Claim C9, as amended. The future of \<open>join\<close> is completed once: resolved or
  rejected, it stays so under every event, and a settled wait ignores its listener and
  its timer. When \<open>full-connect\<close> comes first, the wait is resolved, its timer cleared
  and its listener removed. When the timer comes first, the wait is rejected and its
  listener stays registered. \<open>destroy()\<close> leaves \<open>join\<close> and its waits as they are.
\<close>

theorem join_wait_settles_once:
  "(join_state t = JoinResolved \<longrightarrow> join_state (handle e t) = JoinResolved) \<and>
   (join_state t = JoinRejected r \<longrightarrow> join_state (handle e t) = JoinRejected r) \<and>
   (settled w \<noteq> Pending \<longrightarrow>
      settled (waitFor_listener w) = settled w \<and> settled (waitFor_timer w) = settled w) \<and>
   (armed t \<and> isFullyConnected t \<longrightarrow>
      join_state (checkFullConnect t) = JoinResolved \<and>
      fc_wait (checkFullConnect t) =
        Some \<lparr>w_event = ''full-connect'', w_timeout = Some 10000, settled = Resolved,
              listening = False, timer = False\<rparr>) \<and>
   (armed t \<longrightarrow>
      join_state (handle TimerFullConnect t) = JoinRejected (Timeout ''full-connect'' 10000) \<and>
      fc_wait (handle TimerFullConnect t) =
        Some \<lparr>w_event = ''full-connect'', w_timeout = Some 10000,
              settled = Rejected (Timeout ''full-connect'' 10000),
              listening = True, timer = False\<rparr>) \<and>
   join_state (destroy t) = join_state t \<and> fc_wait (destroy t) = fc_wait t \<and>
   rc_wait (destroy t) = rc_wait t"
proof -
  have "join_state t = JoinResolved \<longrightarrow> join_state (handle e t) = JoinResolved"
    using join_settled_handle [of t e] by simp
  moreover have "join_state t = JoinRejected r \<longrightarrow> join_state (handle e t) = JoinRejected r"
    using join_settled_handle [of t e] by simp
  moreover have "armed t \<and> isFullyConnected t \<longrightarrow>
      join_state (checkFullConnect t) = JoinResolved \<and>
      fc_wait (checkFullConnect t) =
        Some \<lparr>w_event = ''full-connect'', w_timeout = Some 10000, settled = Resolved,
              listening = False, timer = False\<rparr>"
    using armed_checkFullConnect [of t] by (simp add: waitFor_def)
  moreover have "armed t \<longrightarrow>
      join_state (handle TimerFullConnect t) = JoinRejected (Timeout ''full-connect'' 10000) \<and>
      fc_wait (handle TimerFullConnect t) =
        Some \<lparr>w_event = ''full-connect'', w_timeout = Some 10000,
              settled = Rejected (Timeout ''full-connect'' 10000),
              listening = True, timer = False\<rparr>"
    using armed_timer [of t] by (simp add: waitFor_def)
  ultimately show ?thesis
    using waiter_settled_once [of w] destroy_keeps_join [of t] by blast
qed

theorem join_wait_settles_once_witness:
  "armed (handle (RoomCount 2) (join ''r'' ''pw'' mesh0)) \<and>
   join_state (handle TimerFullConnect (handle (RoomCount 2) (join ''r'' ''pw'' mesh0)))
     = JoinRejected (Timeout ''full-connect'' 10000) \<and>
   join_state (handle (RoomCount 1)
      (handle TimerFullConnect (handle (RoomCount 2) (join ''r'' ''pw'' mesh0))))
     = JoinRejected (Timeout ''full-connect'' 10000) \<and>
   armed (handle (RoomCount 2) (join ''r'' ''pw'' (run [Initialize ''a'', PeerConnect ''a''] mesh0))) \<and>
   isFullyConnected
     (handle (RoomCount 2) (join ''r'' ''pw'' (run [Initialize ''a'', PeerConnect ''a''] mesh0))) \<and>
   join_state (checkFullConnect
     (handle (RoomCount 2) (join ''r'' ''pw'' (run [Initialize ''a'', PeerConnect ''a''] mesh0))))
     = JoinResolved"
proof -
  let ?t = "handle (RoomCount 2) (join ''r'' ''pw'' mesh0)"
  let ?u = "handle (RoomCount 2) (join ''r'' ''pw'' (run [Initialize ''a'', PeerConnect ''a''] mesh0))"
  have a: "armed ?t" "armed ?u"
    using join_first_count [of 2 "''r''" "''pw''"] by simp_all
  have f: "isFullyConnected ?u" by code_simp
  from join_wait_settles_once [where t = ?t] a
  have 1: "join_state (handle TimerFullConnect ?t) = JoinRejected (Timeout ''full-connect'' 10000)"
    by blast
  from join_wait_settles_once [where t = "handle TimerFullConnect ?t" and e = "RoomCount 1"
      and r = "Timeout ''full-connect'' 10000"] 1
  have 2: "join_state (handle (RoomCount 1) (handle TimerFullConnect ?t))
      = JoinRejected (Timeout ''full-connect'' 10000)"
    by blast
  from join_wait_settles_once [where t = ?u] a f
  have 3: "join_state (checkFullConnect ?u) = JoinResolved" by blast
  from a f 1 2 3 show ?thesis by blast
qed

text \<open>
  The claim as stated fails. After the timeout has rejected the wait, its listener is
  still registered. And \<open>destroy()\<close> cancels nothing: \<open>join\<close> still waits, listener
  registered and timer armed.
\<close>

theorem join_wait_cancelled_counterexample:
  "fc_wait (run [RoomCount 2, TimerFullConnect] (join ''r'' ''pw'' mesh0)) =
     Some \<lparr>w_event = ''full-connect'', w_timeout = Some 10000,
           settled = Rejected (Timeout ''full-connect'' 10000),
           listening = True, timer = False\<rparr> \<and>
   join_state (destroy (run [RoomCount 2] (join ''r'' ''pw'' mesh0))) = AwaitFullConnect \<and>
   fc_wait (destroy (run [RoomCount 2] (join ''r'' ''pw'' mesh0))) =
     Some \<lparr>w_event = ''full-connect'', w_timeout = Some 10000,
           settled = Pending, listening = True, timer = True\<rparr>"
  by code_simp

text \<open>
  Should a \<open>room-count\<close> update still reach the listeners after \<open>destroy()\<close>, the
  waiting \<open>join\<close> resolves.
\<close>

lemma join_resolves_after_destroy:
  "join_state (run [RoomCount 1] (destroy (run [RoomCount 2] (join ''r'' ''pw'' mesh0))))
     = JoinResolved"
  by code_simp

section \<open>\<open>SimplePeerMesh\<close> compared\<close>

lemma sp_log_fields [simp]:
  "sp_peers (sp_log a s) = sp_peers s"
  "sp_roomCount (sp_log a s) = sp_roomCount s"
  "sp_joining (sp_log a s) = sp_joining s"
  "sp_out (sp_log a s) = sp_out s @ [a]"
  by (simp_all add: sp_log_def)

lemma sp_fire_fields [simp]:
  "sp_peers (sp_fire a s) = sp_peers s"
  "sp_roomCount (sp_fire a s) = sp_roomCount s"
  "sp_out (sp_fire a s) = sp_out s @ [a]"
  by (cases a; simp add: Let_def)+

lemma sp_checkFullConnect_fields [simp]:
  "sp_peers (sp_checkFullConnect s) = sp_peers s"
  "sp_roomCount (sp_checkFullConnect s) = sp_roomCount s"
  by (simp_all add: sp_checkFullConnect_def Let_def)

text \<open>The peer map of \<open>SimplePeerMesh\<close> holds one entry per identity as well.\<close>

lemma sp_distinct_peers_handle:
  "distinct (map fst (sp_peers s)) \<Longrightarrow> sp_handle e s = Inr s' \<Longrightarrow>
   distinct (map fst (sp_peers s'))"
  by (cases e)
     (auto simp add: sp_on_roomCount_def sp_on_initialize_def sp_on_destroy_def sp_on_signal_def
        sp_on_peer_connect_def Let_def distinct_update distinct_delete distinct_map_entry
        split: option.splits sum.splits)

lemma sp_peer_map_unique:
  "distinct (map fst (sp_peers s)) \<Longrightarrow> sp_run es s = Inr s' \<Longrightarrow>
   distinct (map fst (sp_peers s'))"
proof (induction es arbitrary: s)
  case Nil
  then show ?case by simp
next
  case (Cons e es)
  then show ?case
    by (auto split: sum.splits dest: sp_distinct_peers_handle)
qed

text \<open>
  Its \<open>fullConnect\<close> is level-triggered in the same way, its \<open>destroy\<close> listener
  does not check for full connection either, and its \<open>broadcast\<close> reaches every entry,
  connected or not, with the message unencoded.
\<close>

lemma sp_fullConnect_repeats:
  "sp_run [SpRoomCount 1, SpRoomCount 1] sp_constructor =
     Inr \<lparr>sp_peers = [], sp_roomCount = 1, sp_joining = SpNotJoined,
          sp_out = [Fire_roomCount 1, Fire_fullConnect, Fire_roomCount 1, Fire_fullConnect]\<rparr>"
  by (simp add: sp_constructor_def sp_on_roomCount_def sp_log_def sp_checkFullConnect_def
      sp_getConnectedPeerCount_def)

lemma sp_destroy_does_not_check:
  "sp_on_destroy i s = Inr s' \<Longrightarrow> Fire_fullConnect \<notin> set (sp_out s) \<Longrightarrow>
   Fire_fullConnect \<notin> set (sp_out s')"
  by (auto simp add: sp_on_destroy_def Let_def split: option.splits sum.splits)

lemma sp_broadcast_every_entry:
  "(k, m') \<in> set (sp_broadcast m s) \<longleftrightarrow> hasOwnProperty (sp_peers s) k \<and> m' = m"
  by (auto simp add: sp_broadcast_def hasOwnProperty_iff)

text \<open>
  Its \<open>join\<close> resolves at a first room count of 1, and otherwise at the next
  \<open>fullConnect\<close>; until then it waits, with nothing to end the wait.
\<close>

lemma sp_join_alone:
  "sp_joining (sp_on_roomCount 1 (sp_join r s)) = SpResolved"
  by (simp add: sp_on_roomCount_def sp_join_def sp_checkFullConnect_def Let_def)

lemma sp_join_waits_then_resolves:
  "sp_run [SpRoomCount 2, SpInitialize ''a''] (sp_join ''r'' sp_constructor) =
     Inr \<lparr>sp_peers = [(''a'', \<lparr>initiator = True, trickle = True, stream = None,
                                connected = False, destroyed = False\<rparr>)],
          sp_roomCount = 2, sp_joining = SpAwaitFullConnect,
          sp_out = [Socket_join ''r'', Fire_roomCount 2]\<rparr> \<and>
   sp_run [SpRoomCount 2, SpInitialize ''a'', SpPeerConnect ''a''] (sp_join ''r'' sp_constructor) =
     Inr \<lparr>sp_peers = [(''a'', \<lparr>initiator = True, trickle = True, stream = None,
                                connected = True, destroyed = False\<rparr>)],
          sp_roomCount = 2, sp_joining = SpResolved,
          sp_out = [Socket_join ''r'', Fire_roomCount 2, Fire_connect ''a'', Fire_fullConnect]\<rparr>"
  by (simp add: sp_constructor_def sp_join_def sp_on_roomCount_def sp_on_initialize_def
      sp_on_peer_connect_def sp_createPeer_def sp_log_def sp_checkFullConnect_def
      sp_getConnectedPeerCount_def)

end
